theory Spec2Isabelle
  imports Main "HOL-Library.AList"
begin

section \<open>Strings\<close>

text \<open>
  The source splits names at the separator \<open>.\<close> with \<^verbatim>\<open>strings.Split\<close> and
  \<^verbatim>\<open>strings.SplitN(_, ".", 2)\<close>. \<open>Split\<close> returns at least one component (the
  whole string when it holds no separator); \<open>SplitN2\<close> cuts at the first separator only.
\<close>

function Split :: "string \<Rightarrow> string list" where
  "Split s =
     (case dropWhile (\<lambda>c. c \<noteq> CHR ''.'') s of
        [] \<Rightarrow> [s]
      | _ # rest \<Rightarrow> takeWhile (\<lambda>c. c \<noteq> CHR ''.'') s # Split rest)"
  by pat_completeness auto
termination
proof (relation "measure length")
  fix s :: string and x rest
  assume "dropWhile (\<lambda>c. c \<noteq> CHR ''.'') s = x # rest"
  moreover have "length (dropWhile (\<lambda>c. c \<noteq> CHR ''.'') s) \<le> length s"
    by (rule length_dropWhile_le)
  ultimately show "(rest, s) \<in> measure length" by simp
qed simp

declare Split.simps [simp del]

definition SplitN2 :: "string \<Rightarrow> string list" where
  "SplitN2 s =
     (case dropWhile (\<lambda>c. c \<noteq> CHR ''.'') s of
        [] \<Rightarrow> [s]
      | _ # rest \<Rightarrow> [takeWhile (\<lambda>c. c \<noteq> CHR ''.'') s, rest])"

definition HasPrefixDot :: "string \<Rightarrow> bool" where
  "HasPrefixDot s = (case s of [] \<Rightarrow> False | c # _ \<Rightarrow> c = CHR ''.'')"

text \<open>\<^verbatim>\<open>strings.Replace(s, ".", "/", -1)\<close>: every separator becomes a slash.\<close>

definition ReplaceDots :: "string \<Rightarrow> string" where
  "ReplaceDots s = map (\<lambda>c. if c = CHR ''.'' then CHR ''/'' else c) s"

text \<open>Decimal rendering of an integer, as \<^verbatim>\<open>%d\<close> and \<^verbatim>\<open>strconv.Itoa\<close> print it.\<close>

definition digitChar :: "nat \<Rightarrow> char" where
  "digitChar d = ''0123456789'' ! d"

function natDigits :: "nat \<Rightarrow> string" where
  "natDigits n = (if n < 10 then [digitChar n] else natDigits (n div 10) @ [digitChar (n mod 10)])"
  by pat_completeness auto
termination
  by (relation "measure id") auto

declare natDigits.simps [simp del]

definition Itoa :: "int \<Rightarrow> string" where
  "Itoa i = (if i < 0 then CHR ''-'' # natDigits (nat (- i)) else natDigits (nat i))"

section \<open>Descriptors\<close>

text \<open>
  An extension slot of an options message: not set, set to a value the extension accessor
  returns, or set on the wire to bytes the accessor fails on (with the accessor's error
  text). \<open>HasExtension\<close> is true for the last two.
\<close>

datatype 'a extension = Unset | Decoded 'a | Undecodable string

definition HasExtension :: "'a extension \<Rightarrow> bool" where
  "HasExtension x = (x \<noteq> Unset)"

text \<open>
  Modelled from the spec: the option messages of package \<^verbatim>\<open>protos\<close>
  (\<^verbatim>\<open>BigQueryFieldOptions\<close>, \<^verbatim>\<open>BigQueryMessageOptions\<close>) are declared outside the source
  file. The field-level options are a drop flag, a force-required flag, a type override, a
  name override and a description; the message-level options hold the derived table name
  and the switch for the wire-safe alternate names.
\<close>

record BigQueryFieldOptions =
  Require :: bool
  TypeOverride :: string
  Ignore :: bool
  OptName :: string
  OptDescription :: string

record BigQueryMessageOptions =
  TableName :: string
  UseJsonNames :: bool

text \<open>
  Modelled from the spec: the event-name and event-version extensions of the message
  options are declared outside the source file; the decoded annotations are a string and an
  integer.
\<close>

record MessageOptions =
  E_EventName :: "string extension"
  E_EventVersion :: "int extension"

record FieldOptions =
  E_Bigquery :: "BigQueryFieldOptions extension"

text \<open>
  The descriptor fields hold what the \<^verbatim>\<open>Get\<close> accessors of the descriptor return. Label
  and kind are the numbers of the enumeration values.
\<close>

record FieldDescriptorProto =
  fGetName :: string
  fGetJsonName :: string
  fGetLabel :: int
  fGetType :: int
  fGetTypeName :: string
  fGetOptions :: "FieldOptions option"

datatype DescriptorProto =
  DescriptorProto
    (GetName: string)
    (GetField: "FieldDescriptorProto list")
    (GetNestedType: "DescriptorProto list")
    (GetOptions: "MessageOptions option")

record FileDescriptorProto =
  fileGetName :: string
  Package :: "string option"
  GetMessageType :: "DescriptorProto list"

definition GetPackage :: "FileDescriptorProto \<Rightarrow> string" where
  "GetPackage file = (case Package file of None \<Rightarrow> [] | Some p \<Rightarrow> p)"

section \<open>The package tree\<close>

text \<open>
  A package owns its child packages and the message types declared in it; both mappings
  are association lists with unique keys. The \<open>parent\<close> link of the source is the position
  in the tree: a pointer to a package is the list of packages from the pointed one up to
  the root, its parent pointer is the tail, and \<open>nil\<close> is the empty list.
\<close>

datatype ProtoPackage =
  ProtoPackage
    (name: string)
    (children: "(string \<times> ProtoPackage) list")
    (types: "(string \<times> DescriptorProto) list")

definition globalPkg0 :: ProtoPackage where
  "globalPkg0 = ProtoPackage [] [] []"

text \<open>
  \<open>registerLoop\<close> is the loop of \<open>registerType\<close> over the components of the package name.
  The flag tells whether the loop still stands at the global package.
\<close>

fun registerLoop :: "bool \<Rightarrow> string list \<Rightarrow> DescriptorProto \<Rightarrow> ProtoPackage \<Rightarrow> ProtoPackage" where
  "registerLoop atGlobal [] msg pkg =
     ProtoPackage (name pkg) (children pkg) (AList.update (GetName msg) msg (types pkg))"
| "registerLoop atGlobal (node # nodes) msg pkg =
     (if atGlobal \<and> node = [] then registerLoop atGlobal nodes msg pkg
      else
        let child =
          (case map_of (children pkg) node of
             Some c \<Rightarrow> c
           | None \<Rightarrow> ProtoPackage (name pkg @ ''.'' @ node) [] [])
        in ProtoPackage (name pkg)
             (AList.update node (registerLoop False nodes msg child) (children pkg))
             (types pkg))"

definition registerType :: "string option \<Rightarrow> DescriptorProto \<Rightarrow> ProtoPackage \<Rightarrow> ProtoPackage" where
  "registerType pkgName msg globalPkg =
     (case pkgName of
        None \<Rightarrow> registerLoop True [] msg globalPkg
      | Some p \<Rightarrow> registerLoop True (Split p) msg globalPkg)"

section \<open>Type lookup\<close>

text \<open>
  The lookups return a descriptor and a flag; \<open>Found\<close> is the flag set, \<open>NotFound\<close> is
  \<^verbatim>\<open>nil, false\<close>, and \<open>Fatal\<close> is the default branch of the switch in
  \<open>relativelyLookupType\<close>, which ends the process. Logging is left out throughout.
\<close>

datatype lookup = Found DescriptorProto | NotFound | Fatal

fun nestedLoop :: "DescriptorProto \<Rightarrow> string list \<Rightarrow> DescriptorProto option" where
  "nestedLoop desc [] = Some desc"
| "nestedLoop desc (component # components) =
     (case find (\<lambda>nested. GetName nested = component) (GetNestedType desc) of
        Some nested \<Rightarrow> nestedLoop nested components
      | None \<Rightarrow> None)"

definition relativelyLookupNestedType :: "DescriptorProto \<Rightarrow> string \<Rightarrow> DescriptorProto option" where
  "relativelyLookupNestedType desc n = nestedLoop desc (Split n)"

function relativelyLookupType :: "ProtoPackage \<Rightarrow> string \<Rightarrow> lookup" where
  "relativelyLookupType pkg n =
     (case SplitN2 n of
        [] \<Rightarrow> NotFound
      | [c0] \<Rightarrow> (case map_of (types pkg) c0 of Some found \<Rightarrow> Found found | None \<Rightarrow> NotFound)
      | [c0, c1] \<Rightarrow>
          (case map_of (children pkg) c0 of
             Some child \<Rightarrow> relativelyLookupType child c1
           | None \<Rightarrow>
               (case map_of (types pkg) c0 of
                  Some msg \<Rightarrow>
                    (case relativelyLookupNestedType msg c1 of
                       Some found \<Rightarrow> Found found
                     | None \<Rightarrow> NotFound)
                | None \<Rightarrow> NotFound))
      | _ \<Rightarrow> Fatal)"
  by pat_completeness auto
termination
proof (relation "measure (\<lambda>(pkg, n). length n)")
  fix pkg :: ProtoPackage and n c0 cs c1 cs' child
  assume "SplitN2 n = c0 # cs" "cs = c1 # cs'" "cs' = []"
  then have "SplitN2 n = [c0, c1]" by simp
  then have "dropWhile (\<lambda>c. c \<noteq> CHR ''.'') n = CHR ''.'' # c1 \<or>
             (\<exists>x. dropWhile (\<lambda>c. c \<noteq> CHR ''.'') n = x # c1)"
    by (auto simp: SplitN2_def split: list.splits)
  then obtain x where "dropWhile (\<lambda>c. c \<noteq> CHR ''.'') n = x # c1" by blast
  moreover have "length (dropWhile (\<lambda>c. c \<noteq> CHR ''.'') n) \<le> length n"
    by (rule length_dropWhile_le)
  ultimately show "((child, c1), (pkg, n)) \<in> measure (\<lambda>(pkg, n). length n)" by simp
qed simp

declare relativelyLookupType.simps [simp del]

fun lookupLoop :: "ProtoPackage list \<Rightarrow> string \<Rightarrow> lookup" where
  "lookupLoop [] n = NotFound"
| "lookupLoop (pkg # parents) n =
     (case relativelyLookupType pkg n of
        Found desc \<Rightarrow> Found desc
      | NotFound \<Rightarrow> lookupLoop parents n
      | Fatal \<Rightarrow> Fatal)"

definition lookupType :: "ProtoPackage \<Rightarrow> ProtoPackage list \<Rightarrow> string \<Rightarrow> lookup" where
  "lookupType globalPkg pkg n =
     (if HasPrefixDot n then relativelyLookupType globalPkg (tl n) else lookupLoop pkg n)"

fun packageLoop :: "ProtoPackage \<Rightarrow> ProtoPackage list \<Rightarrow> string list \<Rightarrow> ProtoPackage list option" where
  "packageLoop pkg parents [] = Some (pkg # parents)"
| "packageLoop pkg parents (c # cs) =
     (case map_of (children pkg) c of
        None \<Rightarrow> None
      | Some child \<Rightarrow> packageLoop child (pkg # parents) cs)"

definition relativelyLookupPackage :: "ProtoPackage \<Rightarrow> string \<Rightarrow> ProtoPackage list option" where
  "relativelyLookupPackage globalPkg n = packageLoop globalPkg [] (Split n)"

section \<open>Errors\<close>

text \<open>
  The error values of the source, with the text \<^verbatim>\<open>err.Error()\<close> gives. \<open>ExtensionError\<close>
  and \<open>EncodeError\<close> carry the text of the library that raised them. The last two are
  not error values of the source: \<open>NotReached\<close> is the \<^verbatim>\<open>glog.Fatal\<close> of the lookup,
  \<open>OutOfFuel\<close> stands for a recursion deeper than the fuel given (the source has no
  cycle guard and recurses without bound on a message that contains itself).
\<close>

datatype error =
    UnrecognizedLabel int
  | UnrecognizedType int
  | NoSuchMessageType string
  | NoSuchPackage string
  | ExtensionError string
  | EncodeError string
  | NotReached
  | OutOfFuel

definition Label_name :: "(int \<times> string) list" where
  "Label_name =
     [(1, ''LABEL_OPTIONAL''), (2, ''LABEL_REQUIRED''), (3, ''LABEL_REPEATED'')]"

definition Type_name :: "(int \<times> string) list" where
  "Type_name =
     [(1, ''TYPE_DOUBLE''), (2, ''TYPE_FLOAT''), (3, ''TYPE_INT64''), (4, ''TYPE_UINT64''),
      (5, ''TYPE_INT32''), (6, ''TYPE_FIXED64''), (7, ''TYPE_FIXED32''), (8, ''TYPE_BOOL''),
      (9, ''TYPE_STRING''), (10, ''TYPE_GROUP''), (11, ''TYPE_MESSAGE''), (12, ''TYPE_BYTES''),
      (13, ''TYPE_UINT32''), (14, ''TYPE_ENUM''), (15, ''TYPE_SFIXED32''),
      (16, ''TYPE_SFIXED64''), (17, ''TYPE_SINT32''), (18, ''TYPE_SINT64'')]"

definition EnumString :: "(int \<times> string) list \<Rightarrow> int \<Rightarrow> string" where
  "EnumString names v = (case map_of names v of Some s \<Rightarrow> s | None \<Rightarrow> Itoa v)"

fun ErrorText :: "error \<Rightarrow> string" where
  "ErrorText (UnrecognizedLabel l) = ''unrecognized field label: '' @ EnumString Label_name l"
| "ErrorText (UnrecognizedType t) = ''unrecognized field type: '' @ EnumString Type_name t"
| "ErrorText (NoSuchMessageType n) = ''no such message type named '' @ n"
| "ErrorText (NoSuchPackage p) = ''no such package found: '' @ p"
| "ErrorText (ExtensionError e) = e"
| "ErrorText (EncodeError e) = e"
| "ErrorText NotReached = []"
| "ErrorText OutOfFuel = []"

definition GetExtension :: "'a extension \<Rightarrow> error + 'a" where
  "GetExtension x =
     (case x of
        Decoded v \<Rightarrow> Inr v
      | Undecodable e \<Rightarrow> Inl (ExtensionError e)
      | Unset \<Rightarrow> Inl (ExtensionError ''proto: missing extension''))"

section \<open>The mapping tables\<close>

definition typeFromWKT :: "(string \<times> string) list" where
  "typeFromWKT =
     [(''.google.protobuf.Int32Value'', ''INTEGER''),
      (''.google.protobuf.Int64Value'', ''INTEGER''),
      (''.google.protobuf.UInt32Value'', ''INTEGER''),
      (''.google.protobuf.UInt64Value'', ''INTEGER''),
      (''.google.protobuf.DoubleValue'', ''FLOAT''),
      (''.google.protobuf.FloatValue'', ''FLOAT''),
      (''.google.protobuf.BoolValue'', ''BOOLEAN''),
      (''.google.protobuf.StringValue'', ''STRING''),
      (''.google.protobuf.BytesValue'', ''BYTES''),
      (''.google.protobuf.Duration'', ''STRING''),
      (''.google.protobuf.Timestamp'', ''TIMESTAMP'')]"

abbreviation (input) TYPE_DOUBLE :: int where "TYPE_DOUBLE \<equiv> 1"
abbreviation (input) TYPE_FLOAT :: int where "TYPE_FLOAT \<equiv> 2"
abbreviation (input) TYPE_INT64 :: int where "TYPE_INT64 \<equiv> 3"
abbreviation (input) TYPE_UINT64 :: int where "TYPE_UINT64 \<equiv> 4"
abbreviation (input) TYPE_INT32 :: int where "TYPE_INT32 \<equiv> 5"
abbreviation (input) TYPE_FIXED64 :: int where "TYPE_FIXED64 \<equiv> 6"
abbreviation (input) TYPE_FIXED32 :: int where "TYPE_FIXED32 \<equiv> 7"
abbreviation (input) TYPE_BOOL :: int where "TYPE_BOOL \<equiv> 8"
abbreviation (input) TYPE_STRING :: int where "TYPE_STRING \<equiv> 9"
abbreviation (input) TYPE_GROUP :: int where "TYPE_GROUP \<equiv> 10"
abbreviation (input) TYPE_MESSAGE :: int where "TYPE_MESSAGE \<equiv> 11"
abbreviation (input) TYPE_BYTES :: int where "TYPE_BYTES \<equiv> 12"
abbreviation (input) TYPE_UINT32 :: int where "TYPE_UINT32 \<equiv> 13"
abbreviation (input) TYPE_ENUM :: int where "TYPE_ENUM \<equiv> 14"
abbreviation (input) TYPE_SFIXED32 :: int where "TYPE_SFIXED32 \<equiv> 15"
abbreviation (input) TYPE_SFIXED64 :: int where "TYPE_SFIXED64 \<equiv> 16"
abbreviation (input) TYPE_SINT32 :: int where "TYPE_SINT32 \<equiv> 17"
abbreviation (input) TYPE_SINT64 :: int where "TYPE_SINT64 \<equiv> 18"

abbreviation (input) LABEL_OPTIONAL :: int where "LABEL_OPTIONAL \<equiv> 1"
abbreviation (input) LABEL_REQUIRED :: int where "LABEL_REQUIRED \<equiv> 2"
abbreviation (input) LABEL_REPEATED :: int where "LABEL_REPEATED \<equiv> 3"

definition typeFromFieldType :: "(int \<times> string) list" where
  "typeFromFieldType =
     [(TYPE_DOUBLE, ''FLOAT''), (TYPE_FLOAT, ''FLOAT''),
      (TYPE_INT64, ''INTEGER''), (TYPE_UINT64, ''INTEGER''), (TYPE_INT32, ''INTEGER''),
      (TYPE_UINT32, ''INTEGER''), (TYPE_FIXED64, ''INTEGER''), (TYPE_FIXED32, ''INTEGER''),
      (TYPE_SFIXED32, ''INTEGER''), (TYPE_SFIXED64, ''INTEGER''), (TYPE_SINT32, ''INTEGER''),
      (TYPE_SINT64, ''INTEGER''),
      (TYPE_STRING, ''STRING''), (TYPE_BYTES, ''BYTES''), (TYPE_ENUM, ''STRING''),
      (TYPE_BOOL, ''BOOLEAN''),
      (TYPE_GROUP, ''RECORD''), (TYPE_MESSAGE, ''RECORD'')]"

definition modeFromFieldLabel :: "(int \<times> string) list" where
  "modeFromFieldLabel =
     [(LABEL_OPTIONAL, ''NULLABLE''), (LABEL_REQUIRED, ''REQUIRED''),
      (LABEL_REPEATED, ''REPEATED'')]"

section \<open>Message options\<close>

text \<open>What \<^verbatim>\<open>%s\<close> prints for the value the accessor returned: the string, or the
  rendering of \<open>nil\<close> when the accessor failed.\<close>

definition SprintfS :: "error + string \<Rightarrow> string" where
  "SprintfS v = (case v of Inr s \<Rightarrow> s | Inl _ \<Rightarrow> ''%!s(<nil>)'')"

definition getBigqueryMessageOptions :: "DescriptorProto \<Rightarrow> error + BigQueryMessageOptions option" where
  "getBigqueryMessageOptions msg =
     (case GetOptions msg of
        None \<Rightarrow> Inr None
      | Some options \<Rightarrow>
          if \<not> HasExtension (E_EventName options) \<or> \<not> HasExtension (E_EventVersion options)
          then Inr None
          else
            let eventName = GetExtension (E_EventName options) in
            if eventName = Inr [] then Inr None
            else
              (case GetExtension (E_EventVersion options) of
                 Inl err \<Rightarrow> Inl err
               | Inr eventVersion \<Rightarrow>
                   Inr (Some \<lparr>TableName = SprintfS eventName @ ''_v'' @ Itoa eventVersion,
                              UseJsonNames = False\<rparr>)))"

definition GetUseJsonNames :: "BigQueryMessageOptions option \<Rightarrow> bool" where
  "GetUseJsonNames msgOpts = (case msgOpts of None \<Rightarrow> False | Some m \<Rightarrow> UseJsonNames m)"

definition GetTableName :: "BigQueryMessageOptions option \<Rightarrow> string" where
  "GetTableName msgOpts = (case msgOpts of None \<Rightarrow> [] | Some m \<Rightarrow> TableName m)"

section \<open>The schema converter\<close>

datatype Field =
  Field
    (Name: string)
    (Type: string)
    (Mode: string)
    (Description: string)
    (Fields: "Field list")

text \<open>
  The block of \<open>convertField\<close> that applies the field-level options to the column built so
  far: \<open>Inr None\<close> is the dropped field (\<^verbatim>\<open>return nil, nil\<close>).
\<close>

definition applyFieldOptions :: "FieldDescriptorProto \<Rightarrow> Field \<Rightarrow> error + Field option" where
  "applyFieldOptions desc field =
     (case fGetOptions desc of
        None \<Rightarrow> Inr (Some field)
      | Some opts \<Rightarrow>
          if \<not> HasExtension (E_Bigquery opts) then Inr (Some field)
          else
            (case GetExtension (E_Bigquery opts) of
               Inl err \<Rightarrow> Inl err
             | Inr opt \<Rightarrow>
                 if Ignore opt then Inr None
                 else
                   Inr (Some (Field
                     (if OptName opt \<noteq> [] then OptName opt else Name field)
                     (if TypeOverride opt \<noteq> [] then TypeOverride opt else Type field)
                     (if Require opt then ''REQUIRED'' else Mode field)
                     (if OptDescription opt \<noteq> [] then OptDescription opt else Description field)
                     (Fields field)))))"

text \<open>
  \<open>convertField\<close> and \<open>convertMessageType\<close> call each other; \<open>convertLoop\<close> is the loop of
  \<open>convertMessageType\<close> over the fields of the message. The first argument is the depth
  of recursion still allowed; the second is the global package.
\<close>

function convertField ::
    "nat \<Rightarrow> ProtoPackage \<Rightarrow> ProtoPackage list \<Rightarrow> FieldDescriptorProto \<Rightarrow>
     BigQueryMessageOptions option \<Rightarrow> error + Field option"
  and convertMessageType ::
    "nat \<Rightarrow> ProtoPackage \<Rightarrow> ProtoPackage list \<Rightarrow> DescriptorProto \<Rightarrow>
     BigQueryMessageOptions option \<Rightarrow> error + Field list"
  and convertLoop ::
    "nat \<Rightarrow> ProtoPackage \<Rightarrow> ProtoPackage list \<Rightarrow> FieldDescriptorProto list \<Rightarrow>
     BigQueryMessageOptions option \<Rightarrow> error + Field list"
where
  "convertField fuel globalPkg curPkg desc msgOpts =
     (case map_of modeFromFieldLabel (fGetLabel desc) of
        None \<Rightarrow> Inl (UnrecognizedLabel (fGetLabel desc))
      | Some mode \<Rightarrow>
     (case map_of typeFromFieldType (fGetType desc) of
        None \<Rightarrow> Inl (UnrecognizedType (fGetType desc))
      | Some type \<Rightarrow>
     (case applyFieldOptions desc
             (Field (if GetUseJsonNames msgOpts \<and> fGetJsonName desc \<noteq> []
                     then fGetJsonName desc else fGetName desc)
                type mode [] []) of
        Inl err \<Rightarrow> Inl err
      | Inr None \<Rightarrow> Inr None
      | Inr (Some field) \<Rightarrow>
          if Type field \<noteq> ''RECORD'' then Inr (Some field)
          else
            (case map_of typeFromWKT (fGetTypeName desc) of
               Some t \<Rightarrow>
                 Inr (Some (Field (Name field) t (Mode field) (Description field) (Fields field)))
             | None \<Rightarrow>
            (case lookupType globalPkg curPkg (fGetTypeName desc) of
               Fatal \<Rightarrow> Inl NotReached
             | NotFound \<Rightarrow> Inl (NoSuchMessageType (fGetTypeName desc))
             | Found recordType \<Rightarrow>
            (case getBigqueryMessageOptions recordType of
               Inl err \<Rightarrow> Inl err
             | Inr fieldMsgOpts \<Rightarrow>
            (case fuel of
               0 \<Rightarrow> Inl OutOfFuel
             | Suc fuel' \<Rightarrow>
            (case convertMessageType fuel' globalPkg curPkg recordType fieldMsgOpts of
               Inl err \<Rightarrow> Inl err
             | Inr schema \<Rightarrow>
                 if length schema = 0 then Inr None
                 else
                   Inr (Some (Field (Name field) (Type field) (Mode field)
                                (Description field) schema))))))))))"
| "convertMessageType fuel globalPkg curPkg msg opts =
     convertLoop fuel globalPkg curPkg (GetField msg) opts"
| "convertLoop fuel globalPkg curPkg [] opts = Inr []"
| "convertLoop fuel globalPkg curPkg (fieldDesc # rest) opts =
     (case convertField fuel globalPkg curPkg fieldDesc opts of
        Inl err \<Rightarrow> Inl err
      | Inr None \<Rightarrow> convertLoop fuel globalPkg curPkg rest opts
      | Inr (Some field) \<Rightarrow>
          (case convertLoop fuel globalPkg curPkg rest opts of
             Inl err \<Rightarrow> Inl err
           | Inr schema \<Rightarrow> Inr (field # schema)))"
  by pat_completeness auto
termination
  by (relation "inv_image (less_than <*lex*> less_than)
        (\<lambda>x. case x of
           Inl (fuel, g, p, d, opt) \<Rightarrow> (fuel, 0)
         | Inr (Inl (fuel, g, p, m, opt)) \<Rightarrow> (fuel, 2 + length (GetField m))
         | Inr (Inr (fuel, g, p, l, opt)) \<Rightarrow> (fuel, 1 + length l))") auto

declare convertField.simps [simp del]

section \<open>Files and batches\<close>

record ResponseFile =
  FileName :: string
  Content :: string

record CodeGeneratorResponse =
  Error :: "string option"
  File :: "ResponseFile list"

record CodeGeneratorRequest =
  GetFileToGenerate :: "string list"
  GetProtoFile :: "FileDescriptorProto list"

text \<open>
  \<open>convertFileLoop\<close> is the loop of \<open>convertFile\<close> over the messages of the file. The
  parameter \<open>marshal\<close> stands for \<^verbatim>\<open>json.MarshalIndent(schema, "", " ")\<close>, which is not part
  of the sources: it returns the document or the text of its error.
\<close>

fun convertFileLoop ::
    "(Field list \<Rightarrow> string + string) \<Rightarrow> nat \<Rightarrow> ProtoPackage \<Rightarrow> ProtoPackage list \<Rightarrow>
     string \<Rightarrow> DescriptorProto list \<Rightarrow> error + ResponseFile list" where
  "convertFileLoop marshal fuel globalPkg pkg package [] = Inr []"
| "convertFileLoop marshal fuel globalPkg pkg package (msg # rest) =
     (case getBigqueryMessageOptions msg of
        Inl err \<Rightarrow> Inl err
      | Inr opts \<Rightarrow>
          if opts = None then convertFileLoop marshal fuel globalPkg pkg package rest
          else if length (GetTableName opts) = 0
          then convertFileLoop marshal fuel globalPkg pkg package rest
          else
            (case convertMessageType fuel globalPkg pkg msg opts of
               Inl err \<Rightarrow> Inl err
             | Inr schema \<Rightarrow>
            (case marshal schema of
               Inl err \<Rightarrow> Inl (EncodeError err)
             | Inr jsonSchema \<Rightarrow>
            (case convertFileLoop marshal fuel globalPkg pkg package rest of
               Inl err \<Rightarrow> Inl err
             | Inr response \<Rightarrow>
                 Inr (\<lparr>FileName = ReplaceDots package @ ''/'' @ GetTableName opts @ ''.schema'',
                        Content = jsonSchema\<rparr> # response)))))"

definition convertFile ::
    "(Field list \<Rightarrow> string + string) \<Rightarrow> nat \<Rightarrow> ProtoPackage \<Rightarrow> FileDescriptorProto \<Rightarrow>
     error + ResponseFile list" where
  "convertFile marshal fuel globalPkg file =
     (case relativelyLookupPackage globalPkg (GetPackage file) of
        None \<Rightarrow> Inl (NoSuchPackage (GetPackage file))
      | Some pkg \<Rightarrow>
          convertFileLoop marshal fuel globalPkg pkg (GetPackage file) (GetMessageType file))"

text \<open>The first loop of \<open>Convert\<close>: every message of every file is registered.\<close>

definition registerFile :: "ProtoPackage \<Rightarrow> FileDescriptorProto \<Rightarrow> ProtoPackage" where
  "registerFile globalPkg file =
     foldl (\<lambda>g msg. registerType (Package file) msg g) globalPkg (GetMessageType file)"

definition registerFiles :: "ProtoPackage \<Rightarrow> FileDescriptorProto list \<Rightarrow> ProtoPackage" where
  "registerFiles globalPkg files = foldl registerFile globalPkg files"

text \<open>
  The second loop of \<open>Convert\<close>, with the response built so far: the requested files are
  converted in order, and the first error ends the loop with the response as it stands.
\<close>

fun convertFiles ::
    "(Field list \<Rightarrow> string + string) \<Rightarrow> nat \<Rightarrow> ProtoPackage \<Rightarrow> string list \<Rightarrow>
     FileDescriptorProto list \<Rightarrow> CodeGeneratorResponse \<Rightarrow> CodeGeneratorResponse \<times> error option" where
  "convertFiles marshal fuel globalPkg generateTargets [] res = (res, None)"
| "convertFiles marshal fuel globalPkg generateTargets (file # rest) res =
     (if fileGetName file \<in> set generateTargets then
        (case convertFile marshal fuel globalPkg file of
           Inl err \<Rightarrow>
             (res\<lparr>Error := Some (''Failed to convert '' @ fileGetName file @ '': '' @ ErrorText err)\<rparr>,
              Some err)
         | Inr converted \<Rightarrow>
             convertFiles marshal fuel globalPkg generateTargets rest
               (res\<lparr>File := File res @ converted\<rparr>))
      else convertFiles marshal fuel globalPkg generateTargets rest res)"

definition Convert ::
    "(Field list \<Rightarrow> string + string) \<Rightarrow> nat \<Rightarrow> ProtoPackage \<Rightarrow> CodeGeneratorRequest \<Rightarrow>
     CodeGeneratorResponse \<times> error option" where
  "Convert marshal fuel globalPkg req =
     convertFiles marshal fuel (registerFiles globalPkg (GetProtoFile req))
       (GetFileToGenerate req) (GetProtoFile req) \<lparr>Error = None, File = []\<rparr>"

section \<open>Notions used in the statements\<close>

text \<open>A column tree without an empty record: every \<open>RECORD\<close> column, at any depth, has
  nested columns.\<close>

fun noEmptyRecord :: "Field \<Rightarrow> bool" where
  "noEmptyRecord (Field n t m d fs) =
     ((t = ''RECORD'' \<longrightarrow> fs \<noteq> []) \<and> (\<forall>f \<in> set fs. noEmptyRecord f))"

text \<open>A pointer to a package, as the list of packages up to the root, is linked when each
  package of the list is a child of the next one.\<close>

fun linked :: "ProtoPackage list \<Rightarrow> bool" where
  "linked [] = True"
| "linked [p] = True"
| "linked (child # parent # rest) =
     ((\<exists>c. map_of (children parent) c = Some child) \<and> linked (parent # rest))"

text \<open>The components of a package name that \<open>registerType\<close> walks: the leading empty
  components are skipped.\<close>

definition pkgPath :: "string option \<Rightarrow> string list" where
  "pkgPath pkgName =
     (case pkgName of None \<Rightarrow> [] | Some p \<Rightarrow> dropWhile (\<lambda>node. node = []) (Split p))"

text \<open>The reference made of package components and a simple name, joined by separators;
  the absolute reference puts one more separator in front.\<close>

fun dottedName :: "string list \<Rightarrow> string \<Rightarrow> string" where
  "dottedName [] nm = nm"
| "dottedName (c # cs) nm = c @ ''.'' @ dottedName cs nm"

text \<open>The message \<open>msg\<close> is stored under the name \<open>nm\<close> in the package reached from
  \<open>pkg\<close> along the components.\<close>

fun registeredAt :: "ProtoPackage \<Rightarrow> string list \<Rightarrow> string \<Rightarrow> DescriptorProto \<Rightarrow> bool" where
  "registeredAt pkg [] nm msg = (map_of (types pkg) nm = Some msg)"
| "registeredAt pkg (c # cs) nm msg =
     (case map_of (children pkg) c of
        Some child \<Rightarrow> registeredAt child cs nm msg
      | None \<Rightarrow> False)"

text \<open>The registrations the first loop of \<open>Convert\<close> makes, in order.\<close>

definition registrations :: "FileDescriptorProto list \<Rightarrow> (string option \<times> DescriptorProto) list" where
  "registrations files =
     concat (map (\<lambda>file. map (\<lambda>msg. (Package file, msg)) (GetMessageType file)) files)"


text \<open>The artifacts of the requested files of a list, in order (a file that fails adds
  none).\<close>

definition artifacts ::
    "(Field list \<Rightarrow> string + string) \<Rightarrow> nat \<Rightarrow> ProtoPackage \<Rightarrow> string list \<Rightarrow>
     FileDescriptorProto list \<Rightarrow> ResponseFile list" where
  "artifacts marshal fuel globalPkg generateTargets files =
     concat (map (\<lambda>file. case convertFile marshal fuel globalPkg file of
                             Inr converted \<Rightarrow> converted | Inl err \<Rightarrow> [])
               (filter (\<lambda>file. fileGetName file \<in> set generateTargets) files))"


section \<open>The converter, branch by branch\<close>

text \<open>The column \<open>convertField\<close> starts from, before the field-level options apply.\<close>

abbreviation (input) column0 ::
    "FieldDescriptorProto \<Rightarrow> BigQueryMessageOptions option \<Rightarrow> string \<Rightarrow> string \<Rightarrow> Field" where
  "column0 desc msgOpts t m \<equiv>
     Field (if GetUseJsonNames msgOpts \<and> fGetJsonName desc \<noteq> []
            then fGetJsonName desc else fGetName desc) t m [] []"



lemma convertField_label_error:
  "map_of modeFromFieldLabel (fGetLabel desc) = None \<Longrightarrow>
   convertField fuel g cur desc opts = Inl (UnrecognizedLabel (fGetLabel desc))"
  by (simp add: convertField.simps)

lemma convertField_type_error:
  "map_of modeFromFieldLabel (fGetLabel desc) = Some m \<Longrightarrow>
   map_of typeFromFieldType (fGetType desc) = None \<Longrightarrow>
   convertField fuel g cur desc opts = Inl (UnrecognizedType (fGetType desc))"
  by (simp add: convertField.simps)

lemma convertField_options_error:
  "map_of modeFromFieldLabel (fGetLabel desc) = Some m \<Longrightarrow>
   map_of typeFromFieldType (fGetType desc) = Some t \<Longrightarrow>
   applyFieldOptions desc (column0 desc opts t m) = Inl e \<Longrightarrow>
   convertField fuel g cur desc opts = Inl e"
  by (simp add: convertField.simps)

lemma convertField_dropped:
  "map_of modeFromFieldLabel (fGetLabel desc) = Some m \<Longrightarrow>
   map_of typeFromFieldType (fGetType desc) = Some t \<Longrightarrow>
   applyFieldOptions desc (column0 desc opts t m) = Inr None \<Longrightarrow>
   convertField fuel g cur desc opts = Inr None"
  by (simp add: convertField.simps)

lemma convertField_scalar:
  "map_of modeFromFieldLabel (fGetLabel desc) = Some m \<Longrightarrow>
   map_of typeFromFieldType (fGetType desc) = Some t \<Longrightarrow>
   applyFieldOptions desc (column0 desc opts t m) = Inr (Some field) \<Longrightarrow>
   Type field \<noteq> ''RECORD'' \<Longrightarrow>
   convertField fuel g cur desc opts = Inr (Some field)"
  by (simp add: convertField.simps)

lemma convertField_wkt:
  "map_of modeFromFieldLabel (fGetLabel desc) = Some m \<Longrightarrow>
   map_of typeFromFieldType (fGetType desc) = Some t \<Longrightarrow>
   applyFieldOptions desc (column0 desc opts t m) = Inr (Some field) \<Longrightarrow>
   Type field = ''RECORD'' \<Longrightarrow>
   map_of typeFromWKT (fGetTypeName desc) = Some w \<Longrightarrow>
   convertField fuel g cur desc opts =
     Inr (Some (Field (Name field) w (Mode field) (Description field) (Fields field)))"
  by (simp add: convertField.simps)

lemma convertField_record:
  "map_of modeFromFieldLabel (fGetLabel desc) = Some m \<Longrightarrow>
   map_of typeFromFieldType (fGetType desc) = Some t \<Longrightarrow>
   applyFieldOptions desc (column0 desc opts t m) = Inr (Some field) \<Longrightarrow>
   Type field = ''RECORD'' \<Longrightarrow>
   map_of typeFromWKT (fGetTypeName desc) = None \<Longrightarrow>
   convertField fuel g cur desc opts =
     (case lookupType g cur (fGetTypeName desc) of
        Fatal \<Rightarrow> Inl NotReached
      | NotFound \<Rightarrow> Inl (NoSuchMessageType (fGetTypeName desc))
      | Found recordType \<Rightarrow>
     (case getBigqueryMessageOptions recordType of
        Inl err \<Rightarrow> Inl err
      | Inr fieldMsgOpts \<Rightarrow>
     (case fuel of
        0 \<Rightarrow> Inl OutOfFuel
      | Suc fuel' \<Rightarrow>
     (case convertMessageType fuel' g cur recordType fieldMsgOpts of
        Inl err \<Rightarrow> Inl err
      | Inr schema \<Rightarrow>
          if schema = [] then Inr None
          else Inr (Some (Field (Name field) (Type field) (Mode field) (Description field) schema))))))"
  by (simp add: convertField.simps split: lookup.splits sum.splits nat.splits)

lemma applyFieldOptions_cases:
  "applyFieldOptions desc f0 =
     (case fGetOptions desc of
        None \<Rightarrow> Inr (Some f0)
      | Some fo \<Rightarrow>
          (case E_Bigquery fo of
             Unset \<Rightarrow> Inr (Some f0)
           | Undecodable e \<Rightarrow> Inl (ExtensionError e)
           | Decoded opt \<Rightarrow>
               if Ignore opt then Inr None
               else Inr (Some (Field
                     (if OptName opt \<noteq> [] then OptName opt else Name f0)
                     (if TypeOverride opt \<noteq> [] then TypeOverride opt else Type f0)
                     (if Require opt then ''REQUIRED'' else Mode f0)
                     (if OptDescription opt \<noteq> [] then OptDescription opt else Description f0)
                     (Fields f0)))))"
  by (simp add: applyFieldOptions_def HasExtension_def GetExtension_def
      split: option.splits extension.splits)

lemma applyFieldOptions_Fields:
  "applyFieldOptions desc f0 = Inr (Some f) \<Longrightarrow> Fields f = Fields f0"
  by (auto simp: applyFieldOptions_cases split: option.splits extension.splits if_splits)

lemma convertField_wkt_cases:
  "map_of modeFromFieldLabel (fGetLabel desc) = Some m \<Longrightarrow>
   map_of typeFromFieldType (fGetType desc) = Some t \<Longrightarrow>
   map_of typeFromWKT (fGetTypeName desc) = Some w \<Longrightarrow>
   convertField fuel g cur desc opts =
     (case applyFieldOptions desc (column0 desc opts t m) of
        Inl e \<Rightarrow> Inl e
      | Inr None \<Rightarrow> Inr None
      | Inr (Some f) \<Rightarrow>
          if Type f \<noteq> ''RECORD'' then Inr (Some f)
          else Inr (Some (Field (Name f) w (Mode f) (Description f) (Fields f))))"
  by (simp add: convertField.simps split: sum.splits option.splits)

lemma kind_record: "t \<in> {10, 11} \<Longrightarrow> map_of typeFromFieldType t = Some ''RECORD''"
  by (auto simp: typeFromFieldType_def)

lemma wkt_not_record: "map_of typeFromWKT n = Some w \<Longrightarrow> w \<noteq> ''RECORD''"
  by (auto simp: typeFromWKT_def split: if_splits)


lemma convertField_Some_shape:
  assumes m: "map_of modeFromFieldLabel (fGetLabel desc) = Some m"
    and t: "map_of typeFromFieldType (fGetType desc) = Some t"
    and r: "convertField fuel g cur desc opts = Inr (Some f)"
  shows "\<exists>field. applyFieldOptions desc (column0 desc opts t m) = Inr (Some field) \<and>
           Name f = Name field \<and> Mode f = Mode field \<and> Description f = Description field \<and>
           (Type field \<noteq> ''RECORD'' \<longrightarrow> f = field) \<and>
           (Type field = ''RECORD'' \<longrightarrow>
              (map_of typeFromWKT (fGetTypeName desc) = Some (Type f) \<and> Fields f = Fields field) \<or>
              (map_of typeFromWKT (fGetTypeName desc) = None \<and> Type f = ''RECORD'' \<and> Fields f \<noteq> []))"
proof (cases "applyFieldOptions desc (column0 desc opts t m)")
  case (Inl e)
  with convertField_options_error [OF m t Inl] r show ?thesis by simp
next
  case (Inr x)
  show ?thesis
  proof (cases x)
    case None
    with convertField_dropped [OF m t] Inr r show ?thesis by simp
  next
    case (Some field)
    with Inr have a: "applyFieldOptions desc (column0 desc opts t m) = Inr (Some field)" by simp
    show ?thesis
    proof (cases "Type field = ''RECORD''")
      case False
      with convertField_scalar [OF m t a] r a show ?thesis by auto
    next
      case True
      show ?thesis
      proof (cases "map_of typeFromWKT (fGetTypeName desc)")
        case (Some w)
        from convertField_wkt [OF m t a True Some] r a True Some show ?thesis by auto
      next
        case None
        from r convertField_record [OF m t a True None, of fuel g cur]
        have "Name f = Name field \<and> Mode f = Mode field \<and> Description f = Description field \<and>
              Type f = ''RECORD'' \<and> Fields f \<noteq> []"
          using True by (auto split: lookup.splits sum.splits nat.splits if_splits)
        with a True None show ?thesis by auto
      qed
    qed
  qed
qed







lemma applyFieldOptions_json:
  "applyFieldOptions (desc\<lparr>fGetJsonName := j\<rparr>) f0 = applyFieldOptions desc f0"
  by (simp add: applyFieldOptions_def)

lemma convertField_json_unused:
  "convertField fuel g cur (nested\<lparr>fGetJsonName := []\<rparr>) None = convertField fuel g cur nested None"
  by (simp add: convertField.simps [of fuel g cur "nested\<lparr>fGetJsonName := []\<rparr>"]
      convertField.simps [of fuel g cur nested] GetUseJsonNames_def applyFieldOptions_json
      cong: option.case_cong sum.case_cong lookup.case_cong nat.case_cong if_cong)

lemma convertLoop_dropped:
  "convertField fuel g cur desc opts = Inr None \<Longrightarrow>
   convertLoop fuel g cur (before @ desc # rest) opts = convertLoop fuel g cur (before @ rest) opts"
  by (induction before) (simp_all split: sum.splits option.splits)

lemma convertLoop_all_dropped:
  "(\<forall>fd \<in> set fds. convertField fuel g cur fd opts = Inr None) \<Longrightarrow>
   convertLoop fuel g cur fds opts = Inr []"
  by (induction fds) simp_all

lemma convertField_Some_tables:
  assumes "convertField fuel g cur desc opts = Inr r"
  shows "\<exists>m t. map_of modeFromFieldLabel (fGetLabel desc) = Some m \<and>
               map_of typeFromFieldType (fGetType desc) = Some t"
proof (cases "map_of modeFromFieldLabel (fGetLabel desc)")
  case None
  from convertField_label_error [OF None] assms show ?thesis by simp
next
  case (Some m)
  show ?thesis
  proof (cases "map_of typeFromFieldType (fGetType desc)")
    case None
    from convertField_type_error [OF Some None] assms show ?thesis by simp
  next
    case (Some t)
    with \<open>map_of modeFromFieldLabel (fGetLabel desc) = Some m\<close> show ?thesis by blast
  qed
qed

lemma no_empty_record:
  "(\<forall>f. convertField fuel g cur desc opts = Inr (Some f) \<longrightarrow> noEmptyRecord f)"
  "(\<forall>fs. convertMessageType fuel g cur msg opts = Inr fs \<longrightarrow> (\<forall>f \<in> set fs. noEmptyRecord f))"
  "(\<forall>fs. convertLoop fuel g cur fds opts = Inr fs \<longrightarrow> (\<forall>f \<in> set fs. noEmptyRecord f))"
proof (induction fuel g cur desc opts and fuel g cur msg opts and fuel g cur fds opts
    rule: convertField_convertMessageType_convertLoop.induct)
  case (1 fuel g cur desc opts)
  show ?case
  proof (intro allI impI)
    fix f
    assume r: "convertField fuel g cur desc opts = Inr (Some f)"
    from convertField_Some_tables [OF r] obtain m t where
      m: "map_of modeFromFieldLabel (fGetLabel desc) = Some m" and
      t: "map_of typeFromFieldType (fGetType desc) = Some t" by blast
    from convertField_Some_shape [OF m t r] obtain field where
      a: "applyFieldOptions desc (column0 desc opts t m) = Inr (Some field)"
      and sc: "Type field \<noteq> ''RECORD'' \<longrightarrow> f = field"
      and rc: "Type field = ''RECORD'' \<longrightarrow>
         (map_of typeFromWKT (fGetTypeName desc) = Some (Type f) \<and> Fields f = Fields field) \<or>
         (map_of typeFromWKT (fGetTypeName desc) = None \<and> Type f = ''RECORD'' \<and> Fields f \<noteq> [])"
      by blast
    from applyFieldOptions_Fields [OF a] have fe: "Fields field = []" by simp
    show "noEmptyRecord f"
    proof (cases "Type field = ''RECORD''")
      case False
      with sc fe show ?thesis by (cases f) auto
    next
      case True
      show ?thesis
      proof (cases "map_of typeFromWKT (fGetTypeName desc)")
        case (Some w)
        with rc True fe wkt_not_record [OF Some] show ?thesis by (cases f) auto
      next
        case None
        from r convertField_record [OF m t a True None, of fuel g cur]
        obtain recordType ropts k schema where
          l: "lookupType g cur (fGetTypeName desc) = Found recordType"
          and go: "getBigqueryMessageOptions recordType = Inr ropts"
          and fu: "fuel = Suc k"
          and cm: "convertMessageType k g cur recordType ropts = Inr schema"
          and ne: "schema \<noteq> []"
          and fs: "f = Field (Name field) (Type field) (Mode field) (Description field) schema"
          by (auto split: lookup.splits sum.splits nat.splits if_splits)
        from "1.IH" [OF m t a _ _ None l go fu] True cm
        have "\<forall>x \<in> set schema. noEmptyRecord x" by simp
        with fs ne show ?thesis by simp
      qed
    qed
  qed
next
  case (2 fuel g cur msg opts)
  then show ?case by simp
next
  case (3 fuel g cur opts)
  show ?case by simp
next
  case (4 fuel g cur fieldDesc rest opts)
  show ?case
  proof (intro allI impI)
    fix fs
    assume r: "convertLoop fuel g cur (fieldDesc # rest) opts = Inr fs"
    show "\<forall>f \<in> set fs. noEmptyRecord f"
    proof (cases "convertField fuel g cur fieldDesc opts")
      case (Inl e)
      with r show ?thesis by simp
    next
      case (Inr b)
      show ?thesis
      proof (cases b)
        case None
        with Inr r "4.IH"(2) [OF Inr None] show ?thesis by simp
      next
        case (Some x)
        with Inr r "4.IH"(3) [OF Inr Some] "4.IH"(1) show ?thesis
          by (auto split: sum.splits)
      qed
    qed
  qed
qed

text \<open>
  The depth bound only cuts the recursion off: a result other than \<open>OutOfFuel\<close> is the
  result at every greater depth, so it is what the unbounded recursion of the source returns.
\<close>

lemma fuel_step:
  "convertField n g c d opts \<noteq> Inl OutOfFuel \<longrightarrow>
     convertField (Suc n) g c d opts = convertField n g c d opts"
  "convertMessageType n g c msg opts \<noteq> Inl OutOfFuel \<longrightarrow>
     convertMessageType (Suc n) g c msg opts = convertMessageType n g c msg opts"
  "convertLoop n g c fds opts \<noteq> Inl OutOfFuel \<longrightarrow>
     convertLoop (Suc n) g c fds opts = convertLoop n g c fds opts"
proof (induction n g c d opts and n g c msg opts and n g c fds opts
    rule: convertField_convertMessageType_convertLoop.induct)
  case (1 n g c d opts)
  show ?case
  proof
    assume ne: "convertField n g c d opts \<noteq> Inl OutOfFuel"
    show "convertField (Suc n) g c d opts = convertField n g c d opts"
    proof (cases "map_of modeFromFieldLabel (fGetLabel d)")
      case None
      then show ?thesis by (simp add: convertField_label_error)
    next
      case m: (Some m)
      show ?thesis
      proof (cases "map_of typeFromFieldType (fGetType d)")
        case None
        with m show ?thesis by (simp add: convertField_type_error)
      next
        case t: (Some t)
        show ?thesis
        proof (cases "applyFieldOptions d (column0 d opts t m)")
          case (Inl e)
          from convertField_options_error [OF m t Inl] show ?thesis by simp
        next
          case (Inr r)
          show ?thesis
          proof (cases r)
            case None
            with Inr convertField_dropped [OF m t] show ?thesis by simp
          next
            case (Some field)
            with Inr have a: "applyFieldOptions d (column0 d opts t m) = Inr (Some field)" by simp
            show ?thesis
            proof (cases "Type field = ''RECORD''")
              case False
              from convertField_scalar [OF m t a False] show ?thesis by simp
            next
              case rec: True
              show ?thesis
              proof (cases "map_of typeFromWKT (fGetTypeName d)")
                case (Some w)
                from convertField_wkt [OF m t a rec Some] show ?thesis by simp
              next
                case w: None
                note eq = convertField_record [OF m t a rec w]
                show ?thesis
                proof (cases "lookupType g c (fGetTypeName d)")
                  case NotFound
                  then show ?thesis by (simp add: eq)
                next
                  case Fatal
                  then show ?thesis by (simp add: eq)
                next
                  case l: (Found recordType)
                  show ?thesis
                  proof (cases "getBigqueryMessageOptions recordType")
                    case (Inl e)
                    with l show ?thesis by (simp add: eq)
                  next
                    case go: (Inr ropts)
                    show ?thesis
                    proof (cases n)
                      case 0
                      with ne l go show ?thesis by (simp add: eq)
                    next
                      case (Suc k)
                      from ne l go Suc
                      have "convertMessageType k g c recordType ropts \<noteq> Inl OutOfFuel"
                        by (auto simp: eq)
                      with "1.IH" [OF m t a _ _ w l go Suc] rec
                      have "convertMessageType (Suc k) g c recordType ropts =
                          convertMessageType k g c recordType ropts" by simp
                      with l go Suc show ?thesis by (simp add: eq)
                    qed
                  qed
                qed
              qed
            qed
          qed
        qed
      qed
    qed
  qed
next
  case (2 n g c msg opts)
  then show ?case by simp
next
  case (3 n g c opts)
  show ?case by simp
next
  case (4 n g c fd rest opts)
  show ?case
  proof
    assume ne: "convertLoop n g c (fd # rest) opts \<noteq> Inl OutOfFuel"
    show "convertLoop (Suc n) g c (fd # rest) opts = convertLoop n g c (fd # rest) opts"
    proof (cases "convertField n g c fd opts")
      case (Inl e)
      with ne have "e \<noteq> OutOfFuel" by auto
      with Inl "4.IH"(1) show ?thesis by simp
    next
      case (Inr b)
      with "4.IH"(1) have s: "convertField (Suc n) g c fd opts = Inr b" by simp
      show ?thesis
      proof (cases b)
        case None
        with Inr ne have "convertLoop n g c rest opts \<noteq> Inl OutOfFuel" by simp
        with "4.IH"(2) [OF Inr None] Inr s None show ?thesis by simp
      next
        case (Some x)
        with Inr ne have "convertLoop n g c rest opts \<noteq> Inl OutOfFuel"
          by (auto split: sum.splits)
        with "4.IH"(3) [OF Inr Some] Inr s Some show ?thesis by simp
      qed
    qed
  qed
qed

lemma fuel_enough:
  "convertMessageType n g c msg opts \<noteq> Inl OutOfFuel \<Longrightarrow>
   convertMessageType (n + k) g c msg opts = convertMessageType n g c msg opts"
proof (induction k)
  case 0
  show ?case by simp
next
  case (Suc k)
  from Suc.IH [OF Suc.prems] Suc.prems
  have "convertMessageType (n + k) g c msg opts \<noteq> Inl OutOfFuel" by simp
  with fuel_step(2) [of "n + k" g c msg opts] Suc.IH [OF Suc.prems] show ?case by simp
qed

section \<open>The options resolver\<close>


lemma getBigqueryMessageOptions_absent:
  "GetOptions msg = None \<or>
   (\<exists>options. GetOptions msg = Some options \<and>
      (E_EventName options = Unset \<or> E_EventVersion options = Unset)) \<Longrightarrow>
   getBigqueryMessageOptions msg = Inr None"
  by (auto simp add: getBigqueryMessageOptions_def HasExtension_def)







section \<open>Field-level overrides\<close>

text \<open>
  C6, as stated, fails: the label and the kind are checked before the field-level options
  are read, so a field with a set drop flag and a label outside the table is not silently
  absent; its conversion is the unrecognized-label error.
\<close>

theorem C6_unrecognized_label_counterexample:
  "(let opt = \<lparr>Require = False, TypeOverride = [], Ignore = True, OptName = [],
               OptDescription = []\<rparr>;
        desc = \<lparr>fGetName = ''secret'', fGetJsonName = ''secret'', fGetLabel = 0,
                fGetType = TYPE_STRING, fGetTypeName = [],
                fGetOptions = Some \<lparr>E_Bigquery = Decoded opt\<rparr>\<rparr>
    in Ignore opt \<and> convertField 0 globalPkg0 [] desc None = Inl (UnrecognizedLabel 0))"
  by (simp add: Let_def convertField.simps modeFromFieldLabel_def)

text \<open>
  C6, amended. For a field whose label and kind are in the mapping tables and whose
  field-level options decode to \<open>opt\<close>, the conversion is settled in every case. A set drop
  flag gives \<open>Inr None\<close>: the field absent and no error, whatever the kind, the label, the
  registry and the depth. Otherwise the column has mode \<open>REQUIRED\<close> when the force-required
  flag is set and the label's mode if not, the description of the options, the name
  override as its name when that is not empty (else the alternate name when the message
  options ask for it, else the declared name), and as resolved type the type override
  when that is not empty, else the kind's type. When the resolved type is not \<open>RECORD\<close> the
  conversion returns exactly that column, without nested columns. When it is \<open>RECORD\<close> and
  the type reference is a well-known type, it returns that column with the mapped scalar
  type. When it is \<open>RECORD\<close> and the reference is no well-known type, it returns what the
  lookup and the nested conversion give, the column carrying the same name, mode and
  description. Every column produced has these attributes.
\<close>

theorem C6_field_overrides:
  assumes m: "map_of modeFromFieldLabel (fGetLabel desc) = Some m"
    and t: "map_of typeFromFieldType (fGetType desc) = Some t"
    and o: "fGetOptions desc = Some fo" "E_Bigquery fo = Decoded opt"
  shows "(Ignore opt \<longrightarrow> convertField fuel g cur desc msgOpts = Inr None) \<and>
         (\<forall>f. convertField fuel g cur desc msgOpts = Inr (Some f) \<longrightarrow>
            Mode f = (if Require opt then ''REQUIRED'' else m) \<and>
            Name f = (if OptName opt \<noteq> [] then OptName opt
                      else if GetUseJsonNames msgOpts \<and> fGetJsonName desc \<noteq> []
                      then fGetJsonName desc else fGetName desc) \<and>
            Description f = OptDescription opt \<and>
            Type f =
              (let ty = (if TypeOverride opt \<noteq> [] then TypeOverride opt else t)
               in if ty \<noteq> ''RECORD'' then ty
                  else (case map_of typeFromWKT (fGetTypeName desc) of
                          Some w \<Rightarrow> w | None \<Rightarrow> ''RECORD''))) \<and>
         (\<not> Ignore opt \<longrightarrow>
            (let nm = (if OptName opt \<noteq> [] then OptName opt
                       else if GetUseJsonNames msgOpts \<and> fGetJsonName desc \<noteq> []
                       then fGetJsonName desc else fGetName desc);
                 ty = (if TypeOverride opt \<noteq> [] then TypeOverride opt else t);
                 md = (if Require opt then ''REQUIRED'' else m);
                 ds = OptDescription opt
             in convertField fuel g cur desc msgOpts =
                  (if ty \<noteq> ''RECORD'' then Inr (Some (Field nm ty md ds []))
                   else
                     (case map_of typeFromWKT (fGetTypeName desc) of
                        Some w \<Rightarrow> Inr (Some (Field nm w md ds []))
                      | None \<Rightarrow>
                     (case lookupType g cur (fGetTypeName desc) of
                        Fatal \<Rightarrow> Inl NotReached
                      | NotFound \<Rightarrow> Inl (NoSuchMessageType (fGetTypeName desc))
                      | Found recordType \<Rightarrow>
                     (case getBigqueryMessageOptions recordType of
                        Inl err \<Rightarrow> Inl err
                      | Inr fieldMsgOpts \<Rightarrow>
                     (case fuel of
                        0 \<Rightarrow> Inl OutOfFuel
                      | Suc fuel' \<Rightarrow>
                     (case convertMessageType fuel' g cur recordType fieldMsgOpts of
                        Inl err \<Rightarrow> Inl err
                      | Inr schema \<Rightarrow>
                          if schema = [] then Inr None
                          else Inr (Some (Field nm ''RECORD'' md ds schema))))))))))"
proof (intro conjI impI allI)
  assume "Ignore opt"
  then have "applyFieldOptions desc (column0 desc msgOpts t m) = Inr None"
    using o by (simp add: applyFieldOptions_cases)
  then show "convertField fuel g cur desc msgOpts = Inr None"
    by (rule convertField_dropped [OF m t])
next
  fix f
  assume r: "convertField fuel g cur desc msgOpts = Inr (Some f)"
  from convertField_Some_shape [OF m t r] obtain field where
    a: "applyFieldOptions desc (column0 desc msgOpts t m) = Inr (Some field)"
    and s: "Name f = Name field" "Mode f = Mode field" "Description f = Description field"
    and ty: "Type field \<noteq> ''RECORD'' \<longrightarrow> f = field"
      "Type field = ''RECORD'' \<longrightarrow>
         (map_of typeFromWKT (fGetTypeName desc) = Some (Type f) \<and> Fields f = Fields field) \<or>
         (map_of typeFromWKT (fGetTypeName desc) = None \<and> Type f = ''RECORD'' \<and> Fields f \<noteq> [])"
    by blast
  from a o have tf: "Type field = (if TypeOverride opt \<noteq> [] then TypeOverride opt else t)"
    by (auto simp: applyFieldOptions_cases split: if_splits)
  from ty show "Type f =
              (let ty = (if TypeOverride opt \<noteq> [] then TypeOverride opt else t)
               in if ty \<noteq> ''RECORD'' then ty
                  else (case map_of typeFromWKT (fGetTypeName desc) of
                          Some w \<Rightarrow> w | None \<Rightarrow> ''RECORD''))"
    unfolding Let_def tf [symmetric] by (cases "Type field = ''RECORD''") auto
  from a o have "Mode field = (if Require opt then ''REQUIRED'' else m)"
    and "Name field = (if OptName opt \<noteq> [] then OptName opt
                      else if GetUseJsonNames msgOpts \<and> fGetJsonName desc \<noteq> []
                      then fGetJsonName desc else fGetName desc)"
    and "Description field = OptDescription opt"
    by (auto simp: applyFieldOptions_cases split: if_splits)
  with s show "Mode f = (if Require opt then ''REQUIRED'' else m)"
    and "Name f = (if OptName opt \<noteq> [] then OptName opt
                      else if GetUseJsonNames msgOpts \<and> fGetJsonName desc \<noteq> []
                      then fGetJsonName desc else fGetName desc)"
    and "Description f = OptDescription opt"
    by simp_all
next
  assume h: "\<not> Ignore opt"
  define nm where "nm = (if OptName opt \<noteq> [] then OptName opt
             else if GetUseJsonNames msgOpts \<and> fGetJsonName desc \<noteq> []
             then fGetJsonName desc else fGetName desc)"
  define ty where "ty = (if TypeOverride opt \<noteq> [] then TypeOverride opt else t)"
  define md where "md = (if Require opt then ''REQUIRED'' else m)"
  define ds where "ds = OptDescription opt"
  from h o have a: "applyFieldOptions desc (column0 desc msgOpts t m) =
      Inr (Some (Field nm ty md ds []))"
    by (simp add: applyFieldOptions_cases nm_def ty_def md_def ds_def)
  have main: "convertField fuel g cur desc msgOpts =
     (if ty \<noteq> ''RECORD'' then Inr (Some (Field nm ty md ds []))
      else
        (case map_of typeFromWKT (fGetTypeName desc) of
           Some w \<Rightarrow> Inr (Some (Field nm w md ds []))
         | None \<Rightarrow>
        (case lookupType g cur (fGetTypeName desc) of
           Fatal \<Rightarrow> Inl NotReached
         | NotFound \<Rightarrow> Inl (NoSuchMessageType (fGetTypeName desc))
         | Found recordType \<Rightarrow>
        (case getBigqueryMessageOptions recordType of
           Inl err \<Rightarrow> Inl err
         | Inr fieldMsgOpts \<Rightarrow>
        (case fuel of
           0 \<Rightarrow> Inl OutOfFuel
         | Suc fuel' \<Rightarrow>
        (case convertMessageType fuel' g cur recordType fieldMsgOpts of
           Inl err \<Rightarrow> Inl err
         | Inr schema \<Rightarrow>
             if schema = [] then Inr None
             else Inr (Some (Field nm ''RECORD'' md ds schema))))))))"
  proof (cases "ty = ''RECORD''")
    case False
    with convertField_scalar [OF m t a] show ?thesis by simp
  next
    case rec: True
    show ?thesis
    proof (cases "map_of typeFromWKT (fGetTypeName desc)")
      case (Some w)
      with convertField_wkt [OF m t a _ Some] rec show ?thesis by simp
    next
      case None
      with convertField_record [OF m t a _ None, of fuel g cur] rec show ?thesis
        by (simp split: lookup.splits sum.splits nat.splits)
    qed
  qed
  then show "(let nm = (if OptName opt \<noteq> [] then OptName opt
                       else if GetUseJsonNames msgOpts \<and> fGetJsonName desc \<noteq> []
                       then fGetJsonName desc else fGetName desc);
                 ty = (if TypeOverride opt \<noteq> [] then TypeOverride opt else t);
                 md = (if Require opt then ''REQUIRED'' else m);
                 ds = OptDescription opt
     in convertField fuel g cur desc msgOpts =
          (if ty \<noteq> ''RECORD'' then Inr (Some (Field nm ty md ds []))
           else
             (case map_of typeFromWKT (fGetTypeName desc) of
                Some w \<Rightarrow> Inr (Some (Field nm w md ds []))
              | None \<Rightarrow>
             (case lookupType g cur (fGetTypeName desc) of
                Fatal \<Rightarrow> Inl NotReached
              | NotFound \<Rightarrow> Inl (NoSuchMessageType (fGetTypeName desc))
              | Found recordType \<Rightarrow>
             (case getBigqueryMessageOptions recordType of
                Inl err \<Rightarrow> Inl err
              | Inr fieldMsgOpts \<Rightarrow>
             (case fuel of
                0 \<Rightarrow> Inl OutOfFuel
              | Suc fuel' \<Rightarrow>
             (case convertMessageType fuel' g cur recordType fieldMsgOpts of
                Inl err \<Rightarrow> Inl err
              | Inr schema \<Rightarrow>
                  if schema = [] then Inr None
                  else Inr (Some (Field nm ''RECORD'' md ds schema)))))))))"
    unfolding Let_def nm_def ty_def md_def ds_def .
qed

theorem C6_field_overrides_witness:
  "convertField 0 globalPkg0 []
     \<lparr>fGetName = ''created'', fGetJsonName = ''createdAt'', fGetLabel = LABEL_OPTIONAL,
      fGetType = TYPE_INT64, fGetTypeName = [],
      fGetOptions = Some \<lparr>E_Bigquery = Decoded
        \<lparr>Require = True, TypeOverride = ''TIMESTAMP'', Ignore = False,
         OptName = ''created_ts'', OptDescription = ''creation time''\<rparr>\<rparr>\<rparr>
     (Some \<lparr>TableName = ''t_v1'', UseJsonNames = True\<rparr>) =
     Inr (Some (Field ''created_ts'' ''TIMESTAMP'' ''REQUIRED'' ''creation time'' [])) \<and>
   convertField 0 globalPkg0 []
     \<lparr>fGetName = ''age'', fGetJsonName = ''age'', fGetLabel = LABEL_OPTIONAL,
      fGetType = TYPE_INT32, fGetTypeName = [],
      fGetOptions = Some \<lparr>E_Bigquery = Decoded
        \<lparr>Require = True, TypeOverride = [], Ignore = False,
         OptName = [], OptDescription = []\<rparr>\<rparr>\<rparr> None =
     Inr (Some (Field ''age'' ''INTEGER'' ''REQUIRED'' [] [])) \<and>
   convertField 0 globalPkg0 []
     \<lparr>fGetName = ''secret'', fGetJsonName = ''secret'', fGetLabel = LABEL_REPEATED,
      fGetType = TYPE_MESSAGE, fGetTypeName = ''.no.such.Type'',
      fGetOptions = Some \<lparr>E_Bigquery = Decoded
        \<lparr>Require = False, TypeOverride = [], Ignore = True,
         OptName = [], OptDescription = []\<rparr>\<rparr>\<rparr> None = Inr None"
proof (intro conjI)
  let ?opt = "\<lparr>Require = True, TypeOverride = ''TIMESTAMP'', Ignore = False,
         OptName = ''created_ts'', OptDescription = ''creation time''\<rparr>"
  let ?desc = "\<lparr>fGetName = ''created'', fGetJsonName = ''createdAt'',
      fGetLabel = LABEL_OPTIONAL, fGetType = TYPE_INT64, fGetTypeName = [],
      fGetOptions = Some \<lparr>E_Bigquery = Decoded ?opt\<rparr>\<rparr>"
  have m: "map_of modeFromFieldLabel (fGetLabel ?desc) = Some ''NULLABLE''"
    by (simp add: modeFromFieldLabel_def)
  have t: "map_of typeFromFieldType (fGetType ?desc) = Some ''INTEGER''"
    by (simp add: typeFromFieldType_def)
  have o: "fGetOptions ?desc = Some \<lparr>E_Bigquery = Decoded ?opt\<rparr>"
    "E_Bigquery \<lparr>E_Bigquery = Decoded ?opt\<rparr> = Decoded ?opt"
    by simp_all
  from C6_field_overrides [where fuel = 0 and g = globalPkg0 and cur = "[]"
      and msgOpts = "Some \<lparr>TableName = ''t_v1'', UseJsonNames = True\<rparr>",
      OF m t o, THEN conjunct2, THEN conjunct2]
  show "convertField 0 globalPkg0 [] ?desc (Some \<lparr>TableName = ''t_v1'', UseJsonNames = True\<rparr>) =
     Inr (Some (Field ''created_ts'' ''TIMESTAMP'' ''REQUIRED'' ''creation time'' []))"
    by (simp add: Let_def)
next
  let ?opt = "\<lparr>Require = True, TypeOverride = [], Ignore = False,
         OptName = [], OptDescription = []\<rparr>"
  let ?desc = "\<lparr>fGetName = ''age'', fGetJsonName = ''age'', fGetLabel = LABEL_OPTIONAL,
      fGetType = TYPE_INT32, fGetTypeName = [],
      fGetOptions = Some \<lparr>E_Bigquery = Decoded ?opt\<rparr>\<rparr>"
  have m: "map_of modeFromFieldLabel (fGetLabel ?desc) = Some ''NULLABLE''"
    by (simp add: modeFromFieldLabel_def)
  have t: "map_of typeFromFieldType (fGetType ?desc) = Some ''INTEGER''"
    by (simp add: typeFromFieldType_def)
  have o: "fGetOptions ?desc = Some \<lparr>E_Bigquery = Decoded ?opt\<rparr>"
    "E_Bigquery \<lparr>E_Bigquery = Decoded ?opt\<rparr> = Decoded ?opt"
    by simp_all
  from C6_field_overrides [where fuel = 0 and g = globalPkg0 and cur = "[]" and msgOpts = None,
      OF m t o, THEN conjunct2, THEN conjunct2]
  show "convertField 0 globalPkg0 [] ?desc None =
     Inr (Some (Field ''age'' ''INTEGER'' ''REQUIRED'' [] []))"
    by (simp add: Let_def GetUseJsonNames_def)
next
  let ?opt = "\<lparr>Require = False, TypeOverride = [], Ignore = True,
         OptName = [], OptDescription = []\<rparr>"
  let ?desc = "\<lparr>fGetName = ''secret'', fGetJsonName = ''secret'', fGetLabel = LABEL_REPEATED,
      fGetType = TYPE_MESSAGE, fGetTypeName = ''.no.such.Type'',
      fGetOptions = Some \<lparr>E_Bigquery = Decoded ?opt\<rparr>\<rparr>"
  have m: "map_of modeFromFieldLabel (fGetLabel ?desc) = Some ''REPEATED''"
    by (simp add: modeFromFieldLabel_def)
  have t: "map_of typeFromFieldType (fGetType ?desc) = Some ''RECORD''"
    by (simp add: typeFromFieldType_def)
  have o: "fGetOptions ?desc = Some \<lparr>E_Bigquery = Decoded ?opt\<rparr>"
    "E_Bigquery \<lparr>E_Bigquery = Decoded ?opt\<rparr> = Decoded ?opt"
    by simp_all
  from C6_field_overrides [where fuel = 0 and g = globalPkg0 and cur = "[]" and msgOpts = None,
      OF m t o, THEN conjunct1]
  show "convertField 0 globalPkg0 [] ?desc None = Inr None"
    by simp
qed

section \<open>Labels and kinds\<close>




section \<open>Well-known types\<close>

text \<open>
  C8, as stated, fails: a message-typed field that references the timestamp wrapper and
  carries a type override gets the override, not \<open>TIMESTAMP\<close>.
\<close>

theorem C8_type_override_counterexample:
  "(let desc = \<lparr>fGetName = ''ts'', fGetJsonName = ''ts'', fGetLabel = LABEL_OPTIONAL,
                fGetType = TYPE_MESSAGE, fGetTypeName = ''.google.protobuf.Timestamp'',
                fGetOptions = Some \<lparr>E_Bigquery = Decoded
                  \<lparr>Require = False, TypeOverride = ''DATE'', Ignore = False,
                   OptName = [], OptDescription = []\<rparr>\<rparr>\<rparr>
    in map_of typeFromWKT (fGetTypeName desc) = Some ''TIMESTAMP'' \<and>
       convertField 0 globalPkg0 [] desc None =
         Inr (Some (Field ''ts'' ''DATE'' ''NULLABLE'' [] [])))"
  by (simp add: Let_def convertField.simps typeFromWKT_def modeFromFieldLabel_def
      typeFromFieldType_def applyFieldOptions_cases GetUseJsonNames_def)

text \<open>
  C8, amended. The well-known-type table maps the timestamp wrapper to \<open>TIMESTAMP\<close>, the
  duration wrapper to \<open>STRING\<close> and the value wrappers to their scalars. For a field of kind
  message or group with a recognized label whose type reference is in the table: when its
  field-level options neither drop it nor override its type with a string other than
  \<open>RECORD\<close>, the column has the mapped scalar type and no nested columns; in every case the
  conversion does not recurse or look the reference up (the result is the same at depth
  zero in the empty registry), and a column it produces has no nested columns.
\<close>

theorem C8_well_known_types:
  assumes "map_of modeFromFieldLabel (fGetLabel desc) = Some m"
    and "fGetType desc \<in> {TYPE_GROUP, TYPE_MESSAGE}"
    and "map_of typeFromWKT (fGetTypeName desc) = Some w"
  shows "(map_of typeFromWKT ''.google.protobuf.Timestamp'' = Some ''TIMESTAMP'' \<and>
          map_of typeFromWKT ''.google.protobuf.Duration'' = Some ''STRING'' \<and>
          map_of typeFromWKT ''.google.protobuf.Int32Value'' = Some ''INTEGER'' \<and>
          map_of typeFromWKT ''.google.protobuf.Int64Value'' = Some ''INTEGER'' \<and>
          map_of typeFromWKT ''.google.protobuf.UInt32Value'' = Some ''INTEGER'' \<and>
          map_of typeFromWKT ''.google.protobuf.UInt64Value'' = Some ''INTEGER'' \<and>
          map_of typeFromWKT ''.google.protobuf.DoubleValue'' = Some ''FLOAT'' \<and>
          map_of typeFromWKT ''.google.protobuf.FloatValue'' = Some ''FLOAT'' \<and>
          map_of typeFromWKT ''.google.protobuf.BoolValue'' = Some ''BOOLEAN'' \<and>
          map_of typeFromWKT ''.google.protobuf.StringValue'' = Some ''STRING'' \<and>
          map_of typeFromWKT ''.google.protobuf.BytesValue'' = Some ''BYTES'') \<and>
         ((fGetOptions desc = None \<or>
           (\<exists>fo. fGetOptions desc = Some fo \<and>
              (E_Bigquery fo = Unset \<or>
               (\<exists>opt. E_Bigquery fo = Decoded opt \<and> \<not> Ignore opt \<and>
                      (TypeOverride opt = [] \<or> TypeOverride opt = ''RECORD''))))) \<longrightarrow>
          (\<exists>f. convertField fuel g cur desc opts = Inr (Some f) \<and> Type f = w \<and> Fields f = [])) \<and>
         convertField fuel g cur desc opts = convertField 0 globalPkg0 [] desc opts \<and>
         (\<forall>f. convertField fuel g cur desc opts = Inr (Some f) \<longrightarrow> Fields f = [])"
proof -
  have t: "map_of typeFromFieldType (fGetType desc) = Some ''RECORD''"
    using assms(2) by (rule kind_record)
  note eq = convertField_wkt_cases [OF assms(1) t assms(3)]
  have a: "(fGetOptions desc = None \<or>
           (\<exists>fo. fGetOptions desc = Some fo \<and>
              (E_Bigquery fo = Unset \<or>
               (\<exists>opt. E_Bigquery fo = Decoded opt \<and> \<not> Ignore opt \<and>
                      (TypeOverride opt = [] \<or> TypeOverride opt = ''RECORD''))))) \<longrightarrow>
          (\<exists>f. convertField fuel g cur desc opts = Inr (Some f) \<and> Type f = w \<and> Fields f = [])"
    by (auto simp: eq applyFieldOptions_cases)
  have b: "convertField fuel g cur desc opts = convertField 0 globalPkg0 [] desc opts"
    by (simp add: eq [of fuel g cur] eq [of 0 globalPkg0 "[]"])
  have c: "\<forall>f. convertField fuel g cur desc opts = Inr (Some f) \<longrightarrow> Fields f = []"
    by (auto simp: eq [of fuel g cur] split: sum.splits option.splits if_splits
        dest: applyFieldOptions_Fields)
  have tab: "map_of typeFromWKT ''.google.protobuf.Timestamp'' = Some ''TIMESTAMP'' \<and>
          map_of typeFromWKT ''.google.protobuf.Duration'' = Some ''STRING'' \<and>
          map_of typeFromWKT ''.google.protobuf.Int32Value'' = Some ''INTEGER'' \<and>
          map_of typeFromWKT ''.google.protobuf.Int64Value'' = Some ''INTEGER'' \<and>
          map_of typeFromWKT ''.google.protobuf.UInt32Value'' = Some ''INTEGER'' \<and>
          map_of typeFromWKT ''.google.protobuf.UInt64Value'' = Some ''INTEGER'' \<and>
          map_of typeFromWKT ''.google.protobuf.DoubleValue'' = Some ''FLOAT'' \<and>
          map_of typeFromWKT ''.google.protobuf.FloatValue'' = Some ''FLOAT'' \<and>
          map_of typeFromWKT ''.google.protobuf.BoolValue'' = Some ''BOOLEAN'' \<and>
          map_of typeFromWKT ''.google.protobuf.StringValue'' = Some ''STRING'' \<and>
          map_of typeFromWKT ''.google.protobuf.BytesValue'' = Some ''BYTES''"
    by (simp add: typeFromWKT_def)
  show ?thesis by (rule conjI [OF tab conjI [OF a conjI [OF b c]]])
qed

theorem C8_well_known_types_witness:
  "(\<exists>f. convertField 0 globalPkg0 []
      \<lparr>fGetName = ''ts'', fGetJsonName = ''ts'', fGetLabel = LABEL_OPTIONAL,
       fGetType = TYPE_MESSAGE, fGetTypeName = ''.google.protobuf.Timestamp'',
       fGetOptions = None\<rparr> None = Inr (Some f) \<and> Type f = ''TIMESTAMP'' \<and> Fields f = [])"
proof -
  let ?desc = "\<lparr>fGetName = ''ts'', fGetJsonName = ''ts'', fGetLabel = LABEL_OPTIONAL,
       fGetType = TYPE_MESSAGE, fGetTypeName = ''.google.protobuf.Timestamp'',
       fGetOptions = None\<rparr>"
  have m: "map_of modeFromFieldLabel (fGetLabel ?desc) = Some ''NULLABLE''"
    by (simp add: modeFromFieldLabel_def)
  have k: "fGetType ?desc \<in> {TYPE_GROUP, TYPE_MESSAGE}" by simp
  have w: "map_of typeFromWKT (fGetTypeName ?desc) = Some ''TIMESTAMP''"
    by (simp add: typeFromWKT_def)
  from C8_well_known_types [OF m k w, THEN conjunct2, THEN conjunct1, of 0 globalPkg0 "[]" None]
  show ?thesis by simp
qed

section \<open>Records\<close>

text \<open>Rule sets that evaluate the lookup and the converter on concrete descriptors.\<close>

lemmas eval_lookup = lookupType_def HasPrefixDot_def relativelyLookupType.simps SplitN2_def
  relativelyLookupNestedType_def
lemmas eval_tables = modeFromFieldLabel_def typeFromFieldType_def typeFromWKT_def
lemmas eval_convert = convertField.simps applyFieldOptions_cases GetUseJsonNames_def
  getBigqueryMessageOptions_def


text \<open>
  C9. A record field that reaches the recursive conversion (its resolved type is \<open>RECORD\<close>,
  its reference is not a well-known type and resolves to \<open>recordType\<close>) and whose nested
  conversion yields no column is converted to \<open>Inr None\<close>: no column and no error, and the
  enclosing message converts to what it converts to without that field. A message all of whose
  fields are dropped yields no column itself, which is how the suppression climbs. No column
  the converter produces is or contains a \<open>RECORD\<close> without nested columns.
\<close>

theorem C9_empty_record_dropped:
  "(map_of modeFromFieldLabel (fGetLabel desc) = Some m \<and>
    map_of typeFromFieldType (fGetType desc) = Some t \<and>
    applyFieldOptions desc (column0 desc opts t m) = Inr (Some field) \<and>
    Type field = ''RECORD'' \<and>
    map_of typeFromWKT (fGetTypeName desc) = None \<and>
    lookupType g cur (fGetTypeName desc) = Found recordType \<and>
    getBigqueryMessageOptions recordType = Inr ropts \<and>
    convertMessageType fuel g cur recordType ropts = Inr [] \<longrightarrow>
      convertField (Suc fuel) g cur desc opts = Inr None \<and>
      convertLoop (Suc fuel) g cur (before @ desc # rest) opts =
        convertLoop (Suc fuel) g cur (before @ rest) opts) \<and>
   ((\<forall>fd \<in> set (GetField msg). convertField fuel g cur fd opts = Inr None) \<longrightarrow>
      convertMessageType fuel g cur msg opts = Inr []) \<and>
   (\<forall>f. convertField fuel g cur desc opts = Inr (Some f) \<longrightarrow> noEmptyRecord f) \<and>
   (\<forall>fs. convertMessageType fuel g cur msg opts = Inr fs \<longrightarrow> (\<forall>f \<in> set fs. noEmptyRecord f))"
proof (intro conjI impI)
  assume h: "map_of modeFromFieldLabel (fGetLabel desc) = Some m \<and>
    map_of typeFromFieldType (fGetType desc) = Some t \<and>
    applyFieldOptions desc (column0 desc opts t m) = Inr (Some field) \<and>
    Type field = ''RECORD'' \<and>
    map_of typeFromWKT (fGetTypeName desc) = None \<and>
    lookupType g cur (fGetTypeName desc) = Found recordType \<and>
    getBigqueryMessageOptions recordType = Inr ropts \<and>
    convertMessageType fuel g cur recordType ropts = Inr []"
  then have m: "map_of modeFromFieldLabel (fGetLabel desc) = Some m"
    and t: "map_of typeFromFieldType (fGetType desc) = Some t"
    and a: "applyFieldOptions desc (column0 desc opts t m) = Inr (Some field)"
    and r: "Type field = ''RECORD''"
    and w: "map_of typeFromWKT (fGetTypeName desc) = None"
    and rest: "lookupType g cur (fGetTypeName desc) = Found recordType"
      "getBigqueryMessageOptions recordType = Inr ropts"
      "convertMessageType fuel g cur recordType ropts = Inr []"
    by blast+
  from rest show d: "convertField (Suc fuel) g cur desc opts = Inr None"
    by (simp add: convertField_record [OF m t a r w])
  from convertLoop_dropped [OF d]
  show "convertLoop (Suc fuel) g cur (before @ desc # rest) opts =
        convertLoop (Suc fuel) g cur (before @ rest) opts" .
next
  assume "\<forall>fd \<in> set (GetField msg). convertField fuel g cur fd opts = Inr None"
  then show "convertMessageType fuel g cur msg opts = Inr []"
    by (simp add: convertLoop_all_dropped)
next
  show "\<forall>f. convertField fuel g cur desc opts = Inr (Some f) \<longrightarrow> noEmptyRecord f"
    by (rule no_empty_record(1))
next
  show "\<forall>fs. convertMessageType fuel g cur msg opts = Inr fs \<longrightarrow> (\<forall>f \<in> set fs. noEmptyRecord f)"
    by (rule no_empty_record(2))
qed


theorem C9_empty_record_dropped_witness:
  "(let hidden = \<lparr>fGetName = ''secret'', fGetJsonName = ''secret'', fGetLabel = LABEL_OPTIONAL,
         fGetType = TYPE_STRING, fGetTypeName = [],
         fGetOptions = Some \<lparr>E_Bigquery = Decoded
           \<lparr>Require = False, TypeOverride = [], Ignore = True, OptName = [],
            OptDescription = []\<rparr>\<rparr>\<rparr>;
        inner = DescriptorProto ''Inner'' [hidden] [] None;
        fin = \<lparr>fGetName = ''inner'', fGetJsonName = ''inner'', fGetLabel = LABEL_OPTIONAL,
         fGetType = TYPE_MESSAGE, fGetTypeName = ''.Inner'', fGetOptions = None\<rparr>;
        middle = DescriptorProto ''Middle'' [fin] [] None;
        fmid = \<lparr>fGetName = ''middle'', fGetJsonName = ''middle'', fGetLabel = LABEL_OPTIONAL,
         fGetType = TYPE_MESSAGE, fGetTypeName = ''.Middle'', fGetOptions = None\<rparr>;
        fid = \<lparr>fGetName = ''id'', fGetJsonName = ''id'', fGetLabel = LABEL_OPTIONAL,
         fGetType = TYPE_INT64, fGetTypeName = [], fGetOptions = None\<rparr>;
        g = ProtoPackage [] [] [(''Inner'', inner), (''Middle'', middle)]
    in convertField (Suc (Suc 0)) g [g] fmid None = Inr None \<and>
       convertLoop (Suc (Suc 0)) g [g] ([] @ fmid # [fid]) None =
         Inr [Field ''id'' ''INTEGER'' ''NULLABLE'' [] []])"
proof -
  let ?hidden = "\<lparr>fGetName = ''secret'', fGetJsonName = ''secret'', fGetLabel = LABEL_OPTIONAL,
         fGetType = TYPE_STRING, fGetTypeName = [],
         fGetOptions = Some \<lparr>E_Bigquery = Decoded
           \<lparr>Require = False, TypeOverride = [], Ignore = True, OptName = [],
            OptDescription = []\<rparr>\<rparr>\<rparr>"
  let ?inner = "DescriptorProto ''Inner'' [?hidden] [] None"
  let ?fin = "\<lparr>fGetName = ''inner'', fGetJsonName = ''inner'', fGetLabel = LABEL_OPTIONAL,
         fGetType = TYPE_MESSAGE, fGetTypeName = ''.Inner'', fGetOptions = None\<rparr>"
  let ?middle = "DescriptorProto ''Middle'' [?fin] [] None"
  let ?fmid = "\<lparr>fGetName = ''middle'', fGetJsonName = ''middle'', fGetLabel = LABEL_OPTIONAL,
         fGetType = TYPE_MESSAGE, fGetTypeName = ''.Middle'', fGetOptions = None\<rparr>"
  let ?fid = "\<lparr>fGetName = ''id'', fGetJsonName = ''id'', fGetLabel = LABEL_OPTIONAL,
         fGetType = TYPE_INT64, fGetTypeName = [], fGetOptions = None\<rparr>"
  let ?g = "ProtoPackage [] [] [(''Inner'', ?inner), (''Middle'', ?middle)]"
  have inner0: "convertMessageType 0 ?g [?g] ?inner None = Inr []"
    by (simp add: eval_convert eval_tables)
  have look_inner: "lookupType ?g [?g] ''.Inner'' = Found ?inner"
    by (simp add: eval_lookup)
  have look_middle: "lookupType ?g [?g] ''.Middle'' = Found ?middle"
    by (simp add: eval_lookup)
  have fin1: "convertField (Suc 0) ?g [?g] ?fin None = Inr None"
    using inner0 look_inner by (simp add: eval_convert eval_tables)
  have middle1: "convertMessageType (Suc 0) ?g [?g] ?middle None = Inr []"
    using fin1 by simp
  have hyp: "map_of modeFromFieldLabel (fGetLabel ?fmid) = Some ''NULLABLE'' \<and>
    map_of typeFromFieldType (fGetType ?fmid) = Some ''RECORD'' \<and>
    applyFieldOptions ?fmid (column0 ?fmid None ''RECORD'' ''NULLABLE'') =
      Inr (Some (Field ''middle'' ''RECORD'' ''NULLABLE'' [] [])) \<and>
    Type (Field ''middle'' ''RECORD'' ''NULLABLE'' [] []) = ''RECORD'' \<and>
    map_of typeFromWKT (fGetTypeName ?fmid) = None \<and>
    lookupType ?g [?g] (fGetTypeName ?fmid) = Found ?middle \<and>
    getBigqueryMessageOptions ?middle = Inr None \<and>
    convertMessageType (Suc 0) ?g [?g] ?middle None = Inr []"
    using look_middle middle1
    by (simp add: eval_tables applyFieldOptions_cases GetUseJsonNames_def
        getBigqueryMessageOptions_def)
  have fid: "convertField (Suc (Suc 0)) ?g [?g] ?fid None =
      Inr (Some (Field ''id'' ''INTEGER'' ''NULLABLE'' [] []))"
    by (simp add: eval_convert eval_tables)
  from C9_empty_record_dropped [where desc = ?fmid and m = "''NULLABLE''" and t = "''RECORD''"
      and opts = None and field = "Field ''middle'' ''RECORD'' ''NULLABLE'' [] []"
      and g = ?g and cur = "[?g]" and recordType = ?middle and ropts = None
      and fuel = "Suc 0" and before = "[]" and rest = "[?fid]", THEN conjunct1, rule_format, OF hyp]
  have "convertField (Suc (Suc 0)) ?g [?g] ?fmid None = Inr None \<and>
      convertLoop (Suc (Suc 0)) ?g [?g] ([] @ ?fmid # [?fid]) None =
        convertLoop (Suc (Suc 0)) ?g [?g] ([] @ [?fid]) None" .
  with fid show ?thesis by (simp add: Let_def)
qed

text \<open>
  C10. A record field whose referenced message has no options blob, or lacks the event-name
  or the event-version annotation, is not skipped: the converter recurses into the message
  with absent options, and the field's column is what that recursion gives. With absent
  options the alternate name of a field is never used: converting a field gives the same
  as converting it with its alternate name erased.
\<close>

theorem C10_nested_without_annotations:
  "(map_of modeFromFieldLabel (fGetLabel desc) = Some m \<and>
    map_of typeFromFieldType (fGetType desc) = Some t \<and>
    applyFieldOptions desc (column0 desc opts t m) = Inr (Some field) \<and>
    Type field = ''RECORD'' \<and>
    map_of typeFromWKT (fGetTypeName desc) = None \<and>
    lookupType g cur (fGetTypeName desc) = Found recordType \<and>
    (GetOptions recordType = None \<or>
     (\<exists>options. GetOptions recordType = Some options \<and>
        (E_EventName options = Unset \<or> E_EventVersion options = Unset))) \<longrightarrow>
      convertField (Suc fuel) g cur desc opts =
        (case convertMessageType fuel g cur recordType None of
           Inl err \<Rightarrow> Inl err
         | Inr schema \<Rightarrow>
             if schema = [] then Inr None
             else Inr (Some (Field (Name field) ''RECORD'' (Mode field) (Description field) schema)))) \<and>
   convertField fuel g cur (nested\<lparr>fGetJsonName := []\<rparr>) None = convertField fuel g cur nested None"
proof (intro conjI impI)
  assume h: "map_of modeFromFieldLabel (fGetLabel desc) = Some m \<and>
    map_of typeFromFieldType (fGetType desc) = Some t \<and>
    applyFieldOptions desc (column0 desc opts t m) = Inr (Some field) \<and>
    Type field = ''RECORD'' \<and>
    map_of typeFromWKT (fGetTypeName desc) = None \<and>
    lookupType g cur (fGetTypeName desc) = Found recordType \<and>
    (GetOptions recordType = None \<or>
     (\<exists>options. GetOptions recordType = Some options \<and>
        (E_EventName options = Unset \<or> E_EventVersion options = Unset)))"
  then have m: "map_of modeFromFieldLabel (fGetLabel desc) = Some m"
    and t: "map_of typeFromFieldType (fGetType desc) = Some t"
    and a: "applyFieldOptions desc (column0 desc opts t m) = Inr (Some field)"
    and r: "Type field = ''RECORD''"
    and w: "map_of typeFromWKT (fGetTypeName desc) = None"
    and l: "lookupType g cur (fGetTypeName desc) = Found recordType"
    and ab: "GetOptions recordType = None \<or>
     (\<exists>options. GetOptions recordType = Some options \<and>
        (E_EventName options = Unset \<or> E_EventVersion options = Unset))"
    by blast+
  from getBigqueryMessageOptions_absent [OF ab]
  have go: "getBigqueryMessageOptions recordType = Inr None" .
  show "convertField (Suc fuel) g cur desc opts =
        (case convertMessageType fuel g cur recordType None of
           Inl err \<Rightarrow> Inl err
         | Inr schema \<Rightarrow>
             if schema = [] then Inr None
             else Inr (Some (Field (Name field) ''RECORD'' (Mode field) (Description field) schema)))"
    using l go r by (simp add: convertField_record [OF m t a r w] split: sum.splits)
next
  show "convertField fuel g cur (nested\<lparr>fGetJsonName := []\<rparr>) None = convertField fuel g cur nested None"
    by (rule convertField_json_unused)
qed

theorem C10_nested_without_annotations_witness:
  "(let fzip = \<lparr>fGetName = ''zip_code'', fGetJsonName = ''zipCode'', fGetLabel = LABEL_OPTIONAL,
         fGetType = TYPE_STRING, fGetTypeName = [], fGetOptions = None\<rparr>;
        addr = DescriptorProto ''Addr'' [fzip] [] None;
        faddr = \<lparr>fGetName = ''addr'', fGetJsonName = ''homeAddr'', fGetLabel = LABEL_OPTIONAL,
         fGetType = TYPE_MESSAGE, fGetTypeName = ''.Addr'', fGetOptions = None\<rparr>;
        g = ProtoPackage [] [] [(''Addr'', addr)]
    in getBigqueryMessageOptions addr = Inr None \<and>
       convertField (Suc 0) g [g] faddr (Some \<lparr>TableName = ''e_v1'', UseJsonNames = True\<rparr>) =
         Inr (Some (Field ''homeAddr'' ''RECORD'' ''NULLABLE'' []
                      [Field ''zip_code'' ''STRING'' ''NULLABLE'' [] []])))"
proof -
  let ?fzip = "\<lparr>fGetName = ''zip_code'', fGetJsonName = ''zipCode'', fGetLabel = LABEL_OPTIONAL,
         fGetType = TYPE_STRING, fGetTypeName = [], fGetOptions = None\<rparr>"
  let ?addr = "DescriptorProto ''Addr'' [?fzip] [] None"
  let ?faddr = "\<lparr>fGetName = ''addr'', fGetJsonName = ''homeAddr'', fGetLabel = LABEL_OPTIONAL,
         fGetType = TYPE_MESSAGE, fGetTypeName = ''.Addr'', fGetOptions = None\<rparr>"
  let ?g = "ProtoPackage [] [] [(''Addr'', ?addr)]"
  let ?opts = "Some \<lparr>TableName = ''e_v1'', UseJsonNames = True\<rparr>"
  have look: "lookupType ?g [?g] ''.Addr'' = Found ?addr"
    by (simp add: eval_lookup)
  have hyp: "map_of modeFromFieldLabel (fGetLabel ?faddr) = Some ''NULLABLE'' \<and>
    map_of typeFromFieldType (fGetType ?faddr) = Some ''RECORD'' \<and>
    applyFieldOptions ?faddr (column0 ?faddr ?opts ''RECORD'' ''NULLABLE'') =
      Inr (Some (Field ''homeAddr'' ''RECORD'' ''NULLABLE'' [] [])) \<and>
    Type (Field ''homeAddr'' ''RECORD'' ''NULLABLE'' [] []) = ''RECORD'' \<and>
    map_of typeFromWKT (fGetTypeName ?faddr) = None \<and>
    lookupType ?g [?g] (fGetTypeName ?faddr) = Found ?addr \<and>
    (GetOptions ?addr = None \<or>
     (\<exists>options. GetOptions ?addr = Some options \<and>
        (E_EventName options = Unset \<or> E_EventVersion options = Unset)))"
    using look by (simp add: eval_tables applyFieldOptions_cases GetUseJsonNames_def)
  have nested: "convertMessageType 0 ?g [?g] ?addr None =
      Inr [Field ''zip_code'' ''STRING'' ''NULLABLE'' [] []]"
    by (simp add: eval_convert eval_tables)
  note th = C10_nested_without_annotations [where desc = ?faddr and m = "''NULLABLE''"
      and t = "''RECORD''" and opts = ?opts
      and field = "Field ''homeAddr'' ''RECORD'' ''NULLABLE'' [] []"
      and g = ?g and cur = "[?g]" and recordType = ?addr and fuel = 0,
      THEN conjunct1, rule_format, OF hyp]
  have "convertField (Suc 0) ?g [?g] ?faddr ?opts =
      Inr (Some (Field ''homeAddr'' ''RECORD'' ''NULLABLE'' []
                      [Field ''zip_code'' ''STRING'' ''NULLABLE'' [] []]))"
    unfolding th nested by simp
  then show ?thesis by (simp add: Let_def getBigqueryMessageOptions_def)
qed

section \<open>Splitting names\<close>

lemma dropWhile_nodot: "CHR ''.'' \<notin> set s \<Longrightarrow> dropWhile (\<lambda>c. c \<noteq> CHR ''.'') s = []"
  by (induction s) auto

lemma takeWhile_dot:
  "CHR ''.'' \<notin> set a \<Longrightarrow> takeWhile (\<lambda>c. c \<noteq> CHR ''.'') (a @ CHR ''.'' # b) = a"
  by (induction a) auto

lemma dropWhile_dot:
  "CHR ''.'' \<notin> set a \<Longrightarrow> dropWhile (\<lambda>c. c \<noteq> CHR ''.'') (a @ CHR ''.'' # b) = CHR ''.'' # b"
  by (induction a) auto

lemma Split_nodot: "CHR ''.'' \<notin> set s \<Longrightarrow> Split s = [s]"
  by (subst Split.simps) (simp add: dropWhile_nodot)

lemma Split_dot: "CHR ''.'' \<notin> set a \<Longrightarrow> Split (a @ CHR ''.'' # b) = a # Split b"
  by (subst Split.simps) (simp add: dropWhile_dot takeWhile_dot)

lemma SplitN2_nodot: "CHR ''.'' \<notin> set s \<Longrightarrow> SplitN2 s = [s]"
  by (simp add: SplitN2_def dropWhile_nodot)

lemma SplitN2_dot: "CHR ''.'' \<notin> set a \<Longrightarrow> SplitN2 (a @ CHR ''.'' # b) = [a, b]"
  by (simp add: SplitN2_def dropWhile_dot takeWhile_dot)

lemma SplitN2_length: "length (SplitN2 s) = 1 \<or> length (SplitN2 s) = 2"
  by (simp add: SplitN2_def split: list.splits)

lemma Split_components: "c \<in> set (Split s) \<Longrightarrow> CHR ''.'' \<notin> set c"
proof (induction s arbitrary: c rule: Split.induct)
  case (1 s)
  note eq = Split.simps [of s]
  show ?case
  proof (cases "dropWhile (\<lambda>c. c \<noteq> CHR ''.'') s")
    case Nil
    from eq have "Split s = [s]" by (simp only: Nil list.case)
    with "1.prems" have "c = s" by simp
    moreover from Nil have "CHR ''.'' \<notin> set s"
      by (auto simp add: dropWhile_eq_Nil_conv)
    ultimately show ?thesis by simp
  next
    case (Cons x rest)
    from eq have "Split s = takeWhile (\<lambda>c. c \<noteq> CHR ''.'') s # Split rest"
      by (simp only: Cons list.case)
    with "1.prems" have "c = takeWhile (\<lambda>c. c \<noteq> CHR ''.'') s \<or> c \<in> set (Split rest)"
      by simp
    then show ?thesis
    proof
      assume "c = takeWhile (\<lambda>c. c \<noteq> CHR ''.'') s"
      then show ?thesis by (auto dest: set_takeWhileD)
    next
      assume "c \<in> set (Split rest)"
      with "1.IH" [OF Cons] show ?thesis by blast
    qed
  qed
qed

lemma relativelyLookupType_nodot:
  "CHR ''.'' \<notin> set n \<Longrightarrow>
   relativelyLookupType pkg n =
     (case map_of (types pkg) n of Some found \<Rightarrow> Found found | None \<Rightarrow> NotFound)"
  by (subst relativelyLookupType.simps) (simp add: SplitN2_nodot)

lemma relativelyLookupType_dot:
  "CHR ''.'' \<notin> set a \<Longrightarrow>
   relativelyLookupType pkg (a @ CHR ''.'' # b) =
     (case map_of (children pkg) a of
        Some child \<Rightarrow> relativelyLookupType child b
      | None \<Rightarrow>
          (case map_of (types pkg) a of
             Some msg \<Rightarrow>
               (case relativelyLookupNestedType msg b of
                  Some found \<Rightarrow> Found found
                | None \<Rightarrow> NotFound)
           | None \<Rightarrow> NotFound))"
  by (subst relativelyLookupType.simps) (simp add: SplitN2_dot)

lemma relativelyLookupType_not_Fatal: "relativelyLookupType pkg n \<noteq> Fatal"
proof (induction pkg n rule: relativelyLookupType.induct)
  case (1 pkg n)
  from SplitN2_length [of n] consider c0 where "SplitN2 n = [c0]"
    | c0 c1 where "SplitN2 n = [c0, c1]"
    by (cases "SplitN2 n") (auto simp: length_Suc_conv)
  then show ?case
  proof cases
    case 1
    then show ?thesis
      by (subst relativelyLookupType.simps) (simp split: option.splits)
  next
    case 2
    show ?thesis
    proof (cases "map_of (children pkg) c0")
      case None
      with 2 show ?thesis
        by (subst relativelyLookupType.simps) (simp split: option.splits)
    next
      case (Some child)
      from "1.IH" [OF 2 refl refl Some] have "relativelyLookupType child c1 \<noteq> Fatal" .
      with 2 Some show ?thesis
        by (subst relativelyLookupType.simps) simp
    qed
  qed
qed

lemma lookupLoop_not_Fatal: "lookupLoop cur n \<noteq> Fatal"
  by (induction cur) (auto split: lookup.splits simp: relativelyLookupType_not_Fatal)

lemma lookupLoop_NotFound:
  "lookupLoop cur n = NotFound \<longleftrightarrow> (\<forall>p \<in> set cur. relativelyLookupType p n = NotFound)"
  by (induction cur) (auto split: lookup.splits simp: relativelyLookupType_not_Fatal)

lemma lookupLoop_Found:
  "lookupLoop cur n = Found d \<longleftrightarrow>
     (\<exists>i < length cur. relativelyLookupType (cur ! i) n = Found d \<and>
        (\<forall>j < i. relativelyLookupType (cur ! j) n = NotFound))"
proof (induction cur)
  case Nil
  show ?case by simp
next
  case (Cons p ps)
  show ?case
  proof (cases "relativelyLookupType p n")
    case (Found d')
    have "(\<exists>i < length (p # ps). relativelyLookupType ((p # ps) ! i) n = Found d \<and>
        (\<forall>j < i. relativelyLookupType ((p # ps) ! j) n = NotFound)) \<longleftrightarrow> d' = d"
    proof
      assume "\<exists>i < length (p # ps). relativelyLookupType ((p # ps) ! i) n = Found d \<and>
        (\<forall>j < i. relativelyLookupType ((p # ps) ! j) n = NotFound)"
      then obtain i where i: "relativelyLookupType ((p # ps) ! i) n = Found d"
        "\<forall>j < i. relativelyLookupType ((p # ps) ! j) n = NotFound" by blast
      show "d' = d"
      proof (cases i)
        case 0
        with i Found show ?thesis by simp
      next
        case (Suc k)
        with i(2) have "relativelyLookupType ((p # ps) ! 0) n = NotFound" by blast
        with Found show ?thesis by simp
      qed
    next
      assume "d' = d"
      with Found have "relativelyLookupType ((p # ps) ! 0) n = Found d \<and>
        (\<forall>j < 0. relativelyLookupType ((p # ps) ! j) n = NotFound)" by simp
      then show "\<exists>i < length (p # ps). relativelyLookupType ((p # ps) ! i) n = Found d \<and>
        (\<forall>j < i. relativelyLookupType ((p # ps) ! j) n = NotFound)" by blast
    qed
    with Found show ?thesis by simp
  next
    case NotFound
    have "(\<exists>i < length (p # ps). relativelyLookupType ((p # ps) ! i) n = Found d \<and>
        (\<forall>j < i. relativelyLookupType ((p # ps) ! j) n = NotFound)) \<longleftrightarrow>
      (\<exists>i < length ps. relativelyLookupType (ps ! i) n = Found d \<and>
        (\<forall>j < i. relativelyLookupType (ps ! j) n = NotFound))"
    proof
      assume "\<exists>i < length (p # ps). relativelyLookupType ((p # ps) ! i) n = Found d \<and>
        (\<forall>j < i. relativelyLookupType ((p # ps) ! j) n = NotFound)"
      then obtain i where i: "i < length (p # ps)"
        "relativelyLookupType ((p # ps) ! i) n = Found d"
        "\<forall>j < i. relativelyLookupType ((p # ps) ! j) n = NotFound" by blast
      from i(2) NotFound obtain k where k: "i = Suc k" by (cases i) auto
      with i have "k < length ps" "relativelyLookupType (ps ! k) n = Found d" by simp_all
      moreover have "\<forall>j < k. relativelyLookupType (ps ! j) n = NotFound"
      proof (intro allI impI)
        fix j assume "j < k"
        then have "Suc j < i" using k by simp
        with i(3) have "relativelyLookupType ((p # ps) ! Suc j) n = NotFound" by blast
        then show "relativelyLookupType (ps ! j) n = NotFound" by simp
      qed
      ultimately show "\<exists>i < length ps. relativelyLookupType (ps ! i) n = Found d \<and>
        (\<forall>j < i. relativelyLookupType (ps ! j) n = NotFound)" by blast
    next
      assume "\<exists>i < length ps. relativelyLookupType (ps ! i) n = Found d \<and>
        (\<forall>j < i. relativelyLookupType (ps ! j) n = NotFound)"
      then obtain k where k: "k < length ps" "relativelyLookupType (ps ! k) n = Found d"
        "\<forall>j < k. relativelyLookupType (ps ! j) n = NotFound" by blast
      have "\<forall>j < Suc k. relativelyLookupType ((p # ps) ! j) n = NotFound"
      proof (intro allI impI)
        fix j assume "j < Suc k"
        then show "relativelyLookupType ((p # ps) ! j) n = NotFound"
          using NotFound k(3) by (cases j) auto
      qed
      with k have "Suc k < length (p # ps) \<and> relativelyLookupType ((p # ps) ! Suc k) n = Found d \<and>
        (\<forall>j < Suc k. relativelyLookupType ((p # ps) ! j) n = NotFound)" by simp
      then show "\<exists>i < length (p # ps). relativelyLookupType ((p # ps) ! i) n = Found d \<and>
        (\<forall>j < i. relativelyLookupType ((p # ps) ! j) n = NotFound)" by blast
    qed
    with NotFound Cons.IH show ?thesis by simp
  next
    case Fatal
    with relativelyLookupType_not_Fatal show ?thesis by blast
  qed
qed

section \<open>Resolution\<close>

lemma packageLoop_chain:
  "packageLoop pkg parents cs = Some chain \<Longrightarrow> linked (pkg # parents) \<Longrightarrow>
   linked chain \<and> chain \<noteq> [] \<and> last chain = last (pkg # parents)"
proof (induction cs arbitrary: pkg parents)
  case Nil
  then show ?case by auto
next
  case (Cons c cs)
  from Cons.prems(1) obtain child where c: "map_of (children pkg) c = Some child"
    and r: "packageLoop child (pkg # parents) cs = Some chain"
    by (auto split: option.splits)
  from c Cons.prems(2) have "linked (child # pkg # parents)" by auto
  from Cons.IH [OF r this] show ?case by simp
qed

lemma relativelyLookupPackage_chain:
  "relativelyLookupPackage g pn = Some cur \<Longrightarrow> linked cur \<and> cur \<noteq> [] \<and> last cur = g"
  using packageLoop_chain [of g "[]" "Split pn" cur] by (simp add: relativelyLookupPackage_def)

lemma relativelyLookupNestedType_nodot:
  "CHR ''.'' \<notin> set c \<Longrightarrow>
   relativelyLookupNestedType desc c = find (\<lambda>nested. GetName nested = c) (GetNestedType desc)"
  by (simp add: relativelyLookupNestedType_def Split_nodot split: option.splits)

lemma relativelyLookupNestedType_dot:
  "CHR ''.'' \<notin> set c \<Longrightarrow>
   relativelyLookupNestedType desc (c @ CHR ''.'' # rest) =
     (case find (\<lambda>nested. GetName nested = c) (GetNestedType desc) of
        Some nested \<Rightarrow> relativelyLookupNestedType nested rest
      | None \<Rightarrow> None)"
  by (simp add: relativelyLookupNestedType_def Split_dot split: option.splits)


text \<open>
  C4. A reference without a leading separator is searched along the pointer: the result is
  not-found exactly when every package from the current one up to the root fails, and it is
  \<open>d\<close> exactly when some package of the list resolves it to \<open>d\<close> and all nearer
  ones fail. A reference with a leading separator is searched in the global package only,
  whatever the current package. The lookup never ends in the fatal branch. The pointer that
  \<open>relativelyLookupPackage\<close> returns is linked and ends at the global package.
\<close>

theorem C4_lookup_order:
  "(\<not> HasPrefixDot n \<longrightarrow>
      (lookupType g cur n = NotFound \<longleftrightarrow>
         (\<forall>p \<in> set cur. relativelyLookupType p n = NotFound)) \<and>
      (\<forall>d. lookupType g cur n = Found d \<longleftrightarrow>
         (\<exists>i < length cur. relativelyLookupType (cur ! i) n = Found d \<and>
            (\<forall>j < i. relativelyLookupType (cur ! j) n = NotFound)))) \<and>
   lookupType g cur (CHR ''.'' # n) = relativelyLookupType g n \<and>
   lookupType g cur n \<noteq> Fatal \<and>
   (relativelyLookupPackage g pn = Some cur \<longrightarrow> linked cur \<and> cur \<noteq> [] \<and> last cur = g)"
proof (intro conjI impI allI)
  assume "\<not> HasPrefixDot n"
  then show "lookupType g cur n = NotFound \<longleftrightarrow>
         (\<forall>p \<in> set cur. relativelyLookupType p n = NotFound)"
    by (simp add: lookupType_def lookupLoop_NotFound)
next
  fix d
  assume "\<not> HasPrefixDot n"
  then show "lookupType g cur n = Found d \<longleftrightarrow>
         (\<exists>i < length cur. relativelyLookupType (cur ! i) n = Found d \<and>
            (\<forall>j < i. relativelyLookupType (cur ! j) n = NotFound))"
    by (simp add: lookupType_def lookupLoop_Found)
next
  show "lookupType g cur (CHR ''.'' # n) = relativelyLookupType g n"
    by (simp add: lookupType_def HasPrefixDot_def)
next
  show "lookupType g cur n \<noteq> Fatal"
    by (simp add: lookupType_def lookupLoop_not_Fatal relativelyLookupType_not_Fatal)
next
  assume "relativelyLookupPackage g pn = Some cur"
  then show "linked cur" "cur \<noteq> []" "last cur = g"
    using relativelyLookupPackage_chain by blast+
qed


theorem C4_lookup_order_witness:
  "(let m = DescriptorProto ''M'' [] [] None;
        x = DescriptorProto ''X'' [] [] None;
        pb = ProtoPackage ''.a.b'' [] [(''X'', x)];
        pa = ProtoPackage ''.a'' [(''b'', pb)] [(''M'', m)];
        g = ProtoPackage [] [(''a'', pa)] []
    in relativelyLookupPackage g ''a.b'' = Some [pb, pa, g] \<and>
       lookupType g [pb, pa, g] ''M'' = Found m \<and>
       lookupType g [pb, pa, g] ''X'' = Found x \<and>
       lookupType g [pb, pa, g] ''Q'' = NotFound \<and>
       lookupType g [pb, pa, g] ''.M'' = NotFound \<and>
       linked [pb, pa, g])"
proof -
  let ?m = "DescriptorProto ''M'' [] [] None"
  let ?x = "DescriptorProto ''X'' [] [] None"
  let ?pb = "ProtoPackage ''.a.b'' [] [(''X'', ?x)]"
  let ?pa = "ProtoPackage ''.a'' [(''b'', ?pb)] [(''M'', ?m)]"
  let ?g = "ProtoPackage [] [(''a'', ?pa)] []"
  let ?cur = "[?pb, ?pa, ?g]"
  have pk: "relativelyLookupPackage ?g ''a.b'' = Some ?cur"
    by (simp add: relativelyLookupPackage_def Split.simps)
  have rl: "relativelyLookupType ?pb ''M'' = NotFound" "relativelyLookupType ?pa ''M'' = Found ?m"
    "relativelyLookupType ?pb ''X'' = Found ?x"
    "relativelyLookupType ?pb ''Q'' = NotFound" "relativelyLookupType ?pa ''Q'' = NotFound"
    "relativelyLookupType ?g ''Q'' = NotFound" "relativelyLookupType ?g ''M'' = NotFound"
    by (simp_all add: relativelyLookupType.simps SplitN2_def)
  note c4 = C4_lookup_order [where g = ?g and cur = ?cur and pn = "''a.b''"]
  have np: "\<not> HasPrefixDot ''M''" "\<not> HasPrefixDot ''X''" "\<not> HasPrefixDot ''Q''"
    by (simp_all add: HasPrefixDot_def)
  have "\<exists>i < length ?cur. relativelyLookupType (?cur ! i) ''M'' = Found ?m \<and>
      (\<forall>j < i. relativelyLookupType (?cur ! j) ''M'' = NotFound)"
    using rl by (intro exI [of _ 1]) simp
  with c4 [where n = "''M''", THEN conjunct1, rule_format, OF np(1), THEN conjunct2, rule_format,
      of ?m]
  have a: "lookupType ?g ?cur ''M'' = Found ?m" by blast
  have "\<exists>i < length ?cur. relativelyLookupType (?cur ! i) ''X'' = Found ?x \<and>
      (\<forall>j < i. relativelyLookupType (?cur ! j) ''X'' = NotFound)"
    using rl by (intro exI [of _ 0]) simp
  with c4 [where n = "''X''", THEN conjunct1, rule_format, OF np(2), THEN conjunct2, rule_format,
      of ?x]
  have b: "lookupType ?g ?cur ''X'' = Found ?x" by blast
  have "\<forall>p \<in> set ?cur. relativelyLookupType p ''Q'' = NotFound"
    using rl by simp
  with c4 [where n = "''Q''", THEN conjunct1, rule_format, OF np(3), THEN conjunct1]
  have c: "lookupType ?g ?cur ''Q'' = NotFound" by blast
  from c4 [where n = "''M''", THEN conjunct2, THEN conjunct1] rl
  have d: "lookupType ?g ?cur ''.M'' = NotFound" by simp
  from c4 [where n = "''M''", THEN conjunct2, THEN conjunct2, THEN conjunct2, rule_format, OF pk]
  have e: "linked ?cur" by blast
  from pk a b c d e show ?thesis by (simp only: Let_def)
qed


text \<open>
  C5, as stated, fails: in the registry built from a message \<open>A\<close> with nested \<open>B\<close> in the
  global package and a package \<open>A\<close> that has no \<open>B\<close>, the search inside the child package
  fails, the type \<open>A\<close> has the nested type \<open>B\<close>, and the reference \<open>A.B\<close> is not found:
  the type route is not tried after the package route has failed.
\<close>

theorem C5_no_fallback_counterexample:
  "(let inner = DescriptorProto ''B'' [] [] None;
        outer = DescriptorProto ''A'' [] [inner] None;
        other = DescriptorProto ''C'' [] [] None;
        pkg = registerType (Some ''A'') other (registerType None outer globalPkg0);
        child = ProtoPackage ''.A'' [] [(''C'', other)]
    in map_of (children pkg) ''A'' = Some child \<and>
       relativelyLookupType child ''B'' = NotFound \<and>
       map_of (types pkg) ''A'' = Some outer \<and>
       relativelyLookupNestedType outer ''B'' = Some inner \<and>
       relativelyLookupType pkg ''A.B'' = NotFound)"
  by (simp add: Let_def registerType_def Split.simps globalPkg0_def
      relativelyLookupType.simps SplitN2_def relativelyLookupNestedType_def)


text \<open>
  C5, amended. Within one package, a reference \<open>a.b\<close> (no separator in \<open>a\<close>) is resolved
  in the child package \<open>a\<close> when there is one, and that result is final; only when there
  is no child package \<open>a\<close> it is resolved through the type \<open>a\<close> declared in the package,
  walking the nested types of \<open>a\<close> along \<open>b\<close>; a reference without separator is looked up
  in the types of the package only. The nested walk takes the first nested type whose name
  is the first segment and goes on with the rest, and fails when a segment has no match.
\<close>

theorem C5_resolution_within_node:
  "(CHR ''.'' \<notin> set a \<longrightarrow>
      relativelyLookupType pkg (a @ ''.'' @ b) =
        (case map_of (children pkg) a of
           Some child \<Rightarrow> relativelyLookupType child b
         | None \<Rightarrow>
             (case map_of (types pkg) a of
                Some msg \<Rightarrow>
                  (case relativelyLookupNestedType msg b of
                     Some found \<Rightarrow> Found found
                   | None \<Rightarrow> NotFound)
              | None \<Rightarrow> NotFound))) \<and>
   (CHR ''.'' \<notin> set n \<longrightarrow>
      relativelyLookupType pkg n =
        (case map_of (types pkg) n of Some found \<Rightarrow> Found found | None \<Rightarrow> NotFound)) \<and>
   (CHR ''.'' \<notin> set a \<longrightarrow>
      relativelyLookupNestedType desc (a @ ''.'' @ b) =
        (case find (\<lambda>nested. GetName nested = a) (GetNestedType desc) of
           Some nested \<Rightarrow> relativelyLookupNestedType nested b
         | None \<Rightarrow> None)) \<and>
   (CHR ''.'' \<notin> set n \<longrightarrow>
      relativelyLookupNestedType desc n =
        find (\<lambda>nested. GetName nested = n) (GetNestedType desc))"
  using relativelyLookupType_dot [of a pkg b] relativelyLookupType_nodot [of n pkg]
    relativelyLookupNestedType_dot [of a desc b] relativelyLookupNestedType_nodot [of n desc]
  by simp

theorem C5_resolution_within_node_witness:
  "(let inner = DescriptorProto ''Inner'' [] [] None;
        outer = DescriptorProto ''Outer'' [] [inner] None;
        pkg = ProtoPackage ''.p'' [] [(''Outer'', outer)]
    in relativelyLookupType pkg ''Outer.Inner'' = Found inner \<and>
       relativelyLookupType pkg ''Outer.DoesNotExist'' = NotFound \<and>
       relativelyLookupType pkg ''Outer'' = Found outer)"
proof -
  let ?inner = "DescriptorProto ''Inner'' [] [] None"
  let ?outer = "DescriptorProto ''Outer'' [] [?inner] None"
  let ?pkg = "ProtoPackage ''.p'' [] [(''Outer'', ?outer)]"
  note c5 = C5_resolution_within_node [where pkg = ?pkg and desc = ?outer and a = "''Outer''"]
  have nd: "CHR ''.'' \<notin> set ''Outer''" "CHR ''.'' \<notin> set ''Inner''"
    "CHR ''.'' \<notin> set ''DoesNotExist''" by simp_all
  from c5 [where n = "''Inner''", THEN conjunct2, THEN conjunct2, THEN conjunct2, rule_format,
      OF nd(2)]
  have n1: "relativelyLookupNestedType ?outer ''Inner'' = Some ?inner" by simp
  from c5 [where n = "''DoesNotExist''", THEN conjunct2, THEN conjunct2, THEN conjunct2,
      rule_format, OF nd(3)]
  have n2: "relativelyLookupNestedType ?outer ''DoesNotExist'' = None" by simp
  from c5 [where b = "''Inner''", THEN conjunct1, rule_format, OF nd(1)] n1
  have a: "relativelyLookupType ?pkg ''Outer.Inner'' = Found ?inner" by simp
  from c5 [where b = "''DoesNotExist''", THEN conjunct1, rule_format, OF nd(1)] n2
  have b: "relativelyLookupType ?pkg ''Outer.DoesNotExist'' = NotFound" by simp
  from c5 [where n = "''Outer''", THEN conjunct2, THEN conjunct1, rule_format, OF nd(1)]
  have c: "relativelyLookupType ?pkg ''Outer'' = Found ?outer" by simp
  from a b c show ?thesis by (simp only: Let_def)
qed

section \<open>Registration\<close>

lemma registerLoop_True:
  "registerLoop True cs msg pkg = registerLoop False (dropWhile (\<lambda>node. node = []) cs) msg pkg"
  by (induction cs) simp_all

lemma registerType_path: "registerType pn msg g = registerLoop False (pkgPath pn) msg g"
  by (cases pn) (simp_all add: registerType_def pkgPath_def registerLoop_True)

lemma pkgPath_components: "c \<in> set (pkgPath pn) \<Longrightarrow> CHR ''.'' \<notin> set c"
  by (cases pn) (auto simp: pkgPath_def dest: set_dropWhileD Split_components)

lemma registeredAt_register:
  "registeredAt (registerLoop False cs msg pkg) cs (GetName msg) msg"
  by (induction cs arbitrary: pkg) (simp_all add: update_conv' Let_def)

lemma registeredAt_preserved:
  "registeredAt pkg cs nm msg \<Longrightarrow> (cs', GetName msg') \<noteq> (cs, nm) \<Longrightarrow>
   registeredAt (registerLoop False cs' msg' pkg) cs nm msg"
proof (induction cs' arbitrary: pkg cs)
  case Nil
  then show ?case by (cases cs) (auto simp: update_conv')
next
  case (Cons c' r')
  show ?case
  proof (cases cs)
    case Nil
    with Cons.prems show ?thesis by (simp add: Let_def)
  next
    case (Cons c r)
    show ?thesis
    proof (cases "c = c'")
      case False
      with Cons Cons.prems(1) show ?thesis by (simp add: Let_def update_conv')
    next
      case True
      from Cons.prems(1) Cons obtain child where
        ch: "map_of (children pkg) c = Some child" and ra: "registeredAt child r nm msg"
        by (auto split: option.splits)
      from Cons.prems(2) Cons True have "(r', GetName msg') \<noteq> (r, nm)" by simp
      from Cons.IH [OF ra this] ch True Cons show ?thesis
        by (simp add: Let_def update_conv')
    qed
  qed
qed

lemma registeredAt_lookup:
  "registeredAt pkg cs nm msg \<Longrightarrow> (\<forall>c \<in> set cs. CHR ''.'' \<notin> set c) \<Longrightarrow>
   CHR ''.'' \<notin> set nm \<Longrightarrow> relativelyLookupType pkg (dottedName cs nm) = Found msg"
proof (induction cs arbitrary: pkg)
  case Nil
  then show ?case by (simp add: relativelyLookupType_nodot)
next
  case (Cons c cs)
  from Cons.prems(1) obtain child where
    ch: "map_of (children pkg) c = Some child" and ra: "registeredAt child cs nm msg"
    by (auto split: option.splits)
  from Cons.prems(2) have nd: "CHR ''.'' \<notin> set c" and rest: "\<forall>c \<in> set cs. CHR ''.'' \<notin> set c"
    by simp_all
  from Cons.IH [OF ra rest Cons.prems(3)]
  have "relativelyLookupType child (dottedName cs nm) = Found msg" .
  with relativelyLookupType_dot [OF nd, of pkg "dottedName cs nm"] ch show ?case by simp
qed

lemma registeredAt_later:
  "registeredAt g (pkgPath p) nm msg \<Longrightarrow>
   (\<forall>(p', m') \<in> set later. (pkgPath p', GetName m') \<noteq> (pkgPath p, nm)) \<Longrightarrow>
   registeredAt (foldl (\<lambda>g (p', m'). registerType p' m' g) g later) (pkgPath p) nm msg"
proof (induction later arbitrary: g)
  case Nil
  then show ?case by simp
next
  case (Cons x later)
  obtain p' m' where x: "x = (p', m')" by (cases x)
  from Cons.prems(2) x have ne: "(pkgPath p', GetName m') \<noteq> (pkgPath p, nm)"
    and rest: "\<forall>(p', m') \<in> set later. (pkgPath p', GetName m') \<noteq> (pkgPath p, nm)"
    by auto
  from registeredAt_preserved [OF Cons.prems(1) ne]
  have "registeredAt (registerType p' m' g) (pkgPath p) nm msg"
    by (simp add: registerType_path)
  from Cons.IH [OF this rest] x show ?case by simp
qed

lemma registerFiles_registrations:
  "registerFiles g files = foldl (\<lambda>g (p, m). registerType p m g) g (registrations files)"
proof (induction files arbitrary: g)
  case Nil
  show ?case by (simp add: registerFiles_def registrations_def)
next
  case (Cons f files)
  have "foldl (\<lambda>g (p, m). registerType p m g) g (map (\<lambda>msg. (Package f, msg)) ms) =
        foldl (\<lambda>g msg. registerType (Package f) msg g) g ms" for ms g
    by (induction ms arbitrary: g) simp_all
  with Cons.IH [of "registerFile g f"] show ?case
    by (simp add: registerFiles_def registrations_def registerFile_def)
qed

lemma dottedName_Split: "dottedName (Split s) nm = s @ ''.'' @ nm"
proof (induction s rule: Split.induct)
  case (1 s)
  note eq = Split.simps [of s]
  show ?case
  proof (cases "dropWhile (\<lambda>c. c \<noteq> CHR ''.'') s")
    case Nil
    from eq have "Split s = [s]" by (simp only: Nil list.case)
    then show ?thesis by simp
  next
    case (Cons x rest)
    from eq have sp: "Split s = takeWhile (\<lambda>c. c \<noteq> CHR ''.'') s # Split rest"
      by (simp only: Cons list.case)
    from Cons have "x = CHR ''.''"
      using hd_dropWhile [of "\<lambda>c. c \<noteq> CHR ''.''" s] by force
    with Cons have "s = takeWhile (\<lambda>c. c \<noteq> CHR ''.'') s @ CHR ''.'' # rest"
      using takeWhile_dropWhile_id [of "\<lambda>c. c \<noteq> CHR ''.''" s] by simp
    with sp "1.IH" [OF Cons] show ?thesis
      by (metis append_Cons append_Nil append_assoc dottedName.simps(2))
  qed
qed

lemma Split_head: "a \<noteq> CHR ''.'' \<Longrightarrow> \<exists>h t. Split (a # rest) = (a # h) # t"
  by (subst Split.simps) (simp split: list.splits)

lemma pkgPath_plain:
  "s \<noteq> [] \<Longrightarrow> hd s \<noteq> CHR ''.'' \<Longrightarrow> pkgPath (Some s) = Split s"
proof -
  assume "s \<noteq> []" "hd s \<noteq> CHR ''.''"
  then obtain a rest where s: "s = a # rest" "a \<noteq> CHR ''.''" by (cases s) auto
  from Split_head [OF s(2), of rest] obtain h t where "Split s = (a # h) # t"
    using s(1) by blast
  then show ?thesis by (simp add: pkgPath_def)
qed

text \<open>
  C3, as stated, fails: when two messages of the same simple name are registered under the
  same package, the absolute reference resolves to the later one, not to the earlier.
\<close>

theorem C3_replaced_message_counterexample:
  "(let first = DescriptorProto ''M'' [] [] None;
        second = DescriptorProto ''M'' [] []
          (Some \<lparr>E_EventName = Decoded ''e'', E_EventVersion = Decoded 1\<rparr>);
        files = [\<lparr>fileGetName = ''a.proto'', Package = Some ''a'', GetMessageType = [first]\<rparr>,
                 \<lparr>fileGetName = ''b.proto'', Package = Some ''a'', GetMessageType = [second]\<rparr>]
    in lookupType (registerFiles globalPkg0 files) [] ''.a.M'' = Found second \<and>
       second \<noteq> first)"
  by (simp add: Let_def registerFiles_def registerFile_def registerType_def Split.simps
      globalPkg0_def lookupType_def HasPrefixDot_def relativelyLookupType.simps SplitN2_def)


text \<open>
  C3, amended. After the registration pass over any files, from any starting registry, a
  message whose simple name holds no separator and that no later registration replaces
  (none with the same package components and the same simple name) is what its absolute
  reference resolves to, from any current package. The absolute reference is the separator,
  the components of the package that the registrar walks, and the simple name; for a
  package name that is not empty and does not start with a separator this is the separator,
  the package name, a separator and the simple name, and without a package it is the
  separator and the simple name.
\<close>

theorem C3_registration_round_trip:
  assumes regs: "registrations files = earlier @ (p, msg) # later"
    and nd: "CHR ''.'' \<notin> set (GetName msg)"
    and last: "\<forall>(p', m') \<in> set later. (pkgPath p', GetName m') \<noteq> (pkgPath p, GetName msg)"
  shows "lookupType (registerFiles g files) cur
           (CHR ''.'' # dottedName (pkgPath p) (GetName msg)) = Found msg \<and>
         (p = None \<or> p = Some [] \<longrightarrow>
            CHR ''.'' # dottedName (pkgPath p) (GetName msg) = ''.'' @ GetName msg) \<and>
         (\<forall>s. p = Some s \<and> s \<noteq> [] \<and> hd s \<noteq> CHR ''.'' \<longrightarrow>
            CHR ''.'' # dottedName (pkgPath p) (GetName msg) = ''.'' @ s @ ''.'' @ GetName msg)"
proof (intro conjI allI impI)
  let ?reg = "\<lambda>g (p', m'). registerType p' m' g"
  let ?g1 = "foldl ?reg g earlier"
  have "registerFiles g files = foldl ?reg (registerType p msg ?g1) later"
    by (simp add: registerFiles_registrations regs)
  moreover have "registeredAt (registerType p msg ?g1) (pkgPath p) (GetName msg) msg"
    by (simp add: registerType_path registeredAt_register)
  from registeredAt_later [OF this last]
  have "registeredAt (foldl ?reg (registerType p msg ?g1) later) (pkgPath p) (GetName msg) msg" .
  ultimately have "registeredAt (registerFiles g files) (pkgPath p) (GetName msg) msg" by simp
  from registeredAt_lookup [OF this _ nd] pkgPath_components
  have "relativelyLookupType (registerFiles g files) (dottedName (pkgPath p) (GetName msg)) = Found msg"
    by blast
  then show "lookupType (registerFiles g files) cur
           (CHR ''.'' # dottedName (pkgPath p) (GetName msg)) = Found msg"
    by (simp add: lookupType_def HasPrefixDot_def)
next
  assume "p = None \<or> p = Some []"
  then show "CHR ''.'' # dottedName (pkgPath p) (GetName msg) = ''.'' @ GetName msg"
    by (auto simp: pkgPath_def Split.simps)
next
  fix s
  assume "p = Some s \<and> s \<noteq> [] \<and> hd s \<noteq> CHR ''.''"
  then show "CHR ''.'' # dottedName (pkgPath p) (GetName msg) = ''.'' @ s @ ''.'' @ GetName msg"
    by (simp add: pkgPath_plain dottedName_Split)
qed


theorem C3_registration_round_trip_witness:
  "(let m = DescriptorProto ''M'' [] [] None;
        n = DescriptorProto ''N'' [] [] None;
        other = DescriptorProto ''M'' [] [n] None;
        files = [\<lparr>fileGetName = ''x.proto'', Package = Some ''a.b'', GetMessageType = [m, n]\<rparr>,
                 \<lparr>fileGetName = ''y.proto'', Package = Some ''a'', GetMessageType = [other]\<rparr>]
    in lookupType (registerFiles globalPkg0 files) [] ''.a.b.M'' = Found m)"
proof -
  let ?m = "DescriptorProto ''M'' [] [] None"
  let ?n = "DescriptorProto ''N'' [] [] None"
  let ?other = "DescriptorProto ''M'' [] [?n] None"
  let ?files = "[\<lparr>fileGetName = ''x.proto'', Package = Some ''a.b'', GetMessageType = [?m, ?n]\<rparr>,
                 \<lparr>fileGetName = ''y.proto'', Package = Some ''a'', GetMessageType = [?other]\<rparr>]"
  have pa: "pkgPath (Some ''a.b'') = [''a'', ''b'']" "pkgPath (Some ''a'') = [''a'']"
    by (simp_all add: pkgPath_def Split.simps)
  have regs: "registrations ?files = [] @ (Some ''a.b'', ?m) # [(Some ''a.b'', ?n), (Some ''a'', ?other)]"
    by (simp add: registrations_def)
  have nd: "CHR ''.'' \<notin> set (GetName ?m)" by simp
  have last: "\<forall>(p', m') \<in> set [(Some ''a.b'', ?n), (Some ''a'', ?other)].
      (pkgPath p', GetName m') \<noteq> (pkgPath (Some ''a.b''), GetName ?m)"
    by (simp add: pa)
  from C3_registration_round_trip [OF regs nd last, THEN conjunct1, of globalPkg0 "[]"]
  have "lookupType (registerFiles globalPkg0 ?files) [] ''.a.b.M'' = Found ?m"
    by (simp add: pa)
  then show ?thesis by (simp only: Let_def)
qed

section \<open>Batches\<close>

lemma convertFiles_converted:
  "(\<forall>b \<in> set before. fileGetName b \<in> set targets \<longrightarrow>
       (\<exists>c. convertFile marshal fuel g b = Inr c)) \<Longrightarrow>
   convertFiles marshal fuel g targets (before @ rest) res =
   convertFiles marshal fuel g targets rest
     (res\<lparr>File := File res @ artifacts marshal fuel g targets before\<rparr>)"
proof (induction before arbitrary: res)
  case Nil
  show ?case by (simp add: artifacts_def)
next
  case (Cons b before)
  from Cons.prems have rest: "\<forall>b \<in> set before. fileGetName b \<in> set targets \<longrightarrow>
       (\<exists>c. convertFile marshal fuel g b = Inr c)" by simp
  show ?case
  proof (cases "fileGetName b \<in> set targets")
    case False
    with Cons.IH [OF rest, of res] show ?thesis by (simp add: artifacts_def)
  next
    case True
    with Cons.prems obtain c where c: "convertFile marshal fuel g b = Inr c" by auto
    with True Cons.IH [OF rest, of "res\<lparr>File := File res @ c\<rparr>"] show ?thesis
      by (simp add: artifacts_def)
  qed
qed

lemma convertFiles_failed:
  "fileGetName f \<in> set targets \<Longrightarrow> convertFile marshal fuel g f = Inl err \<Longrightarrow>
   convertFiles marshal fuel g targets (f # after) res =
     (res\<lparr>Error := Some (''Failed to convert '' @ fileGetName f @ '': '' @ ErrorText err)\<rparr>,
      Some err)"
  by simp


lemmas eval_register = registerFiles_def registerFile_def registerType_def Split.simps
  globalPkg0_def
lemmas eval_file = convertFile_def GetPackage_def relativelyLookupPackage_def
  getBigqueryMessageOptions_def HasExtension_def GetExtension_def SprintfS_def Itoa_def
  natDigits.simps digitChar_def GetTableName_def ReplaceDots_def


text \<open>
  C2, as stated, fails: when the second requested file fails, the response that \<open>Convert\<close>
  returns with the error still lists the artifact of the first.
\<close>

theorem C2_partial_file_list_counterexample:
  "(let ev = DescriptorProto ''Ev'' [] []
          (Some \<lparr>E_EventName = Decoded ''e'', E_EventVersion = Decoded 1\<rparr>);
        bad = DescriptorProto ''Bad''
          [\<lparr>fGetName = ''x'', fGetJsonName = ''x'', fGetLabel = 0, fGetType = TYPE_INT32,
            fGetTypeName = [], fGetOptions = None\<rparr>] []
          (Some \<lparr>E_EventName = Decoded ''b'', E_EventVersion = Decoded 1\<rparr>);
        req = \<lparr>GetFileToGenerate = [''ok.proto'', ''bad.proto''],
               GetProtoFile =
                 [\<lparr>fileGetName = ''ok.proto'', Package = Some ''a'', GetMessageType = [ev]\<rparr>,
                  \<lparr>fileGetName = ''bad.proto'', Package = Some ''b'', GetMessageType = [bad]\<rparr>]\<rparr>
    in Convert (\<lambda>schema. Inr ''null'') 0 globalPkg0 req =
         (\<lparr>Error = Some ''Failed to convert bad.proto: unrecognized field label: 0'',
           File = [\<lparr>FileName = ''a/e_v1.schema'', Content = ''null''\<rparr>]\<rparr>,
          Some (UnrecognizedLabel 0)))"
  by (simp add: Let_def Convert_def eval_register eval_file convertField.simps
      modeFromFieldLabel_def EnumString_def Label_name_def)

text \<open>
  C2, amended. When some requested file fails to convert, \<open>Convert\<close> returns the error of
  the first such file, the error text of the response names that file and the cause, and the
  file list of the response holds exactly the artifacts of the requested files before it:
  none of the failing file, none of a later one. When every requested file converts, there is
  no error and the list holds the artifacts of all requested files in order.
\<close>

theorem C2_batch_failure:
  "((\<exists>f \<in> set (GetProtoFile req). fileGetName f \<in> set (GetFileToGenerate req) \<and>
        (\<exists>e. convertFile marshal fuel (registerFiles g (GetProtoFile req)) f = Inl e)) \<longrightarrow>
      (\<exists>before f after err.
         GetProtoFile req = before @ f # after \<and>
         fileGetName f \<in> set (GetFileToGenerate req) \<and>
         convertFile marshal fuel (registerFiles g (GetProtoFile req)) f = Inl err \<and>
         (\<forall>b \<in> set before. fileGetName b \<in> set (GetFileToGenerate req) \<longrightarrow>
            (\<exists>c. convertFile marshal fuel (registerFiles g (GetProtoFile req)) b = Inr c)) \<and>
         Convert marshal fuel g req =
           (\<lparr>Error = Some (''Failed to convert '' @ fileGetName f @ '': '' @ ErrorText err),
             File = artifacts marshal fuel (registerFiles g (GetProtoFile req))
                      (GetFileToGenerate req) before\<rparr>,
            Some err))) \<and>
   ((\<forall>f \<in> set (GetProtoFile req). fileGetName f \<in> set (GetFileToGenerate req) \<longrightarrow>
        (\<exists>c. convertFile marshal fuel (registerFiles g (GetProtoFile req)) f = Inr c)) \<longrightarrow>
      Convert marshal fuel g req =
        (\<lparr>Error = None,
          File = artifacts marshal fuel (registerFiles g (GetProtoFile req))
                   (GetFileToGenerate req) (GetProtoFile req)\<rparr>,
         None))"
proof (intro conjI impI)
  let ?G = "registerFiles g (GetProtoFile req)"
  let ?T = "GetFileToGenerate req"
  let ?bad = "\<lambda>f. fileGetName f \<in> set ?T \<and> (\<exists>e. convertFile marshal fuel ?G f = Inl e)"
  assume "\<exists>f \<in> set (GetProtoFile req). fileGetName f \<in> set ?T \<and>
        (\<exists>e. convertFile marshal fuel ?G f = Inl e)"
  then have "\<exists>f \<in> set (GetProtoFile req). ?bad f" .
  from split_list_first_prop [OF this] obtain before f after where
    sp: "GetProtoFile req = before @ f # after" and bad: "?bad f"
    and ok: "\<forall>b \<in> set before. \<not> ?bad b" by blast
  from bad obtain err where t: "fileGetName f \<in> set ?T"
    and err: "convertFile marshal fuel ?G f = Inl err" by blast
  have conv: "\<forall>b \<in> set before. fileGetName b \<in> set ?T \<longrightarrow>
            (\<exists>c. convertFile marshal fuel ?G b = Inr c)"
  proof (intro ballI impI)
    fix b assume "b \<in> set before" "fileGetName b \<in> set ?T"
    with ok have "\<not> (\<exists>e. convertFile marshal fuel ?G b = Inl e)" by blast
    then show "\<exists>c. convertFile marshal fuel ?G b = Inr c"
      by (cases "convertFile marshal fuel ?G b") auto
  qed
  have cf: "convertFiles marshal fuel ?G ?T (before @ f # after) \<lparr>Error = None, File = []\<rparr> =
           (\<lparr>Error = Some (''Failed to convert '' @ fileGetName f @ '': '' @ ErrorText err),
             File = artifacts marshal fuel ?G ?T before\<rparr>, Some err)"
    by (simp only: convertFiles_converted [OF conv] convertFiles_failed [OF t err]) simp
  have "Convert marshal fuel g req =
      convertFiles marshal fuel ?G ?T (before @ f # after) \<lparr>Error = None, File = []\<rparr>"
    by (simp add: Convert_def sp)
  with cf have "Convert marshal fuel g req =
           (\<lparr>Error = Some (''Failed to convert '' @ fileGetName f @ '': '' @ ErrorText err),
             File = artifacts marshal fuel ?G ?T before\<rparr>, Some err)"
    by (simp only:)
  with sp t err conv show "\<exists>before f after err.
         GetProtoFile req = before @ f # after \<and>
         fileGetName f \<in> set ?T \<and>
         convertFile marshal fuel ?G f = Inl err \<and>
         (\<forall>b \<in> set before. fileGetName b \<in> set ?T \<longrightarrow>
            (\<exists>c. convertFile marshal fuel ?G b = Inr c)) \<and>
         Convert marshal fuel g req =
           (\<lparr>Error = Some (''Failed to convert '' @ fileGetName f @ '': '' @ ErrorText err),
             File = artifacts marshal fuel ?G ?T before\<rparr>, Some err)"
    by blast
next
  let ?G = "registerFiles g (GetProtoFile req)"
  let ?T = "GetFileToGenerate req"
  assume all: "\<forall>f \<in> set (GetProtoFile req). fileGetName f \<in> set ?T \<longrightarrow>
        (\<exists>c. convertFile marshal fuel ?G f = Inr c)"
  from convertFiles_converted [OF all, of "[]" "\<lparr>Error = None, File = []\<rparr>"]
  show "Convert marshal fuel g req =
        (\<lparr>Error = None, File = artifacts marshal fuel ?G ?T (GetProtoFile req)\<rparr>, None)"
    by (simp add: Convert_def)
qed

theorem C2_batch_failure_witness:
  "(let ev = DescriptorProto ''Ev'' [] []
          (Some \<lparr>E_EventName = Decoded ''e'', E_EventVersion = Decoded 1\<rparr>);
        bad = DescriptorProto ''Bad''
          [\<lparr>fGetName = ''x'', fGetJsonName = ''x'', fGetLabel = 0, fGetType = TYPE_INT32,
            fGetTypeName = [], fGetOptions = None\<rparr>] []
          (Some \<lparr>E_EventName = Decoded ''b'', E_EventVersion = Decoded 1\<rparr>);
        okfile = \<lparr>fileGetName = ''ok.proto'', Package = Some ''a'', GetMessageType = [ev]\<rparr>;
        badfile = \<lparr>fileGetName = ''bad.proto'', Package = Some ''b'', GetMessageType = [bad]\<rparr>;
        req = \<lparr>GetFileToGenerate = [''ok.proto'', ''bad.proto''],
               GetProtoFile = [okfile, badfile]\<rparr>;
        good = \<lparr>GetFileToGenerate = [''ok.proto''], GetProtoFile = [okfile, badfile]\<rparr>
    in (\<exists>before f after err.
          GetProtoFile req = before @ f # after \<and>
          fileGetName f \<in> set (GetFileToGenerate req) \<and>
          convertFile (\<lambda>schema. Inr ''null'') 0 (registerFiles globalPkg0 (GetProtoFile req)) f =
            Inl err \<and>
          Convert (\<lambda>schema. Inr ''null'') 0 globalPkg0 req =
            (\<lparr>Error = Some (''Failed to convert '' @ fileGetName f @ '': '' @ ErrorText err),
              File = artifacts (\<lambda>schema. Inr ''null'') 0
                       (registerFiles globalPkg0 (GetProtoFile req))
                       (GetFileToGenerate req) before\<rparr>,
             Some err)) \<and>
       Convert (\<lambda>schema. Inr ''null'') 0 globalPkg0 good =
         (\<lparr>Error = None,
           File = artifacts (\<lambda>schema. Inr ''null'') 0
                    (registerFiles globalPkg0 (GetProtoFile good))
                    (GetFileToGenerate good) (GetProtoFile good)\<rparr>,
          None))"
proof -
  let ?M = "\<lambda>schema :: Field list. Inr ''null'' :: string + string"
  let ?ev = "DescriptorProto ''Ev'' [] []
          (Some \<lparr>E_EventName = Decoded ''e'', E_EventVersion = Decoded 1\<rparr>)"
  let ?bad = "DescriptorProto ''Bad''
          [\<lparr>fGetName = ''x'', fGetJsonName = ''x'', fGetLabel = 0, fGetType = TYPE_INT32,
            fGetTypeName = [], fGetOptions = None\<rparr>] []
          (Some \<lparr>E_EventName = Decoded ''b'', E_EventVersion = Decoded 1\<rparr>)"
  let ?okfile = "\<lparr>fileGetName = ''ok.proto'', Package = Some ''a'', GetMessageType = [?ev]\<rparr>"
  let ?badfile = "\<lparr>fileGetName = ''bad.proto'', Package = Some ''b'', GetMessageType = [?bad]\<rparr>"
  let ?req = "\<lparr>GetFileToGenerate = [''ok.proto'', ''bad.proto''],
               GetProtoFile = [?okfile, ?badfile]\<rparr>"
  let ?good = "\<lparr>GetFileToGenerate = [''ok.proto''], GetProtoFile = [?okfile, ?badfile]\<rparr>"
  have fails: "convertFile ?M 0 (registerFiles globalPkg0 [?okfile, ?badfile]) ?badfile =
      Inl (UnrecognizedLabel 0)"
    by (simp add: eval_register eval_file convertField.simps modeFromFieldLabel_def)
  have works: "convertFile ?M 0 (registerFiles globalPkg0 [?okfile, ?badfile]) ?okfile =
      Inr [\<lparr>FileName = ''a/e_v1.schema'', Content = ''null''\<rparr>]"
    by (simp add: eval_register eval_file)
  have h1: "\<exists>f \<in> set (GetProtoFile ?req). fileGetName f \<in> set (GetFileToGenerate ?req) \<and>
        (\<exists>e. convertFile ?M 0 (registerFiles globalPkg0 (GetProtoFile ?req)) f = Inl e)"
    using fails by simp
  have h2: "\<forall>f \<in> set (GetProtoFile ?good). fileGetName f \<in> set (GetFileToGenerate ?good) \<longrightarrow>
        (\<exists>c. convertFile ?M 0 (registerFiles globalPkg0 (GetProtoFile ?good)) f = Inr c)"
    using works by simp
  from C2_batch_failure [where req = ?req and marshal = ?M and fuel = 0 and g = globalPkg0,
      THEN conjunct1, THEN mp, OF h1]
  have a: "\<exists>before f after err.
          GetProtoFile ?req = before @ f # after \<and>
          fileGetName f \<in> set (GetFileToGenerate ?req) \<and>
          convertFile ?M 0 (registerFiles globalPkg0 (GetProtoFile ?req)) f = Inl err \<and>
          Convert ?M 0 globalPkg0 ?req =
            (\<lparr>Error = Some (''Failed to convert '' @ fileGetName f @ '': '' @ ErrorText err),
              File = artifacts ?M 0 (registerFiles globalPkg0 (GetProtoFile ?req))
                       (GetFileToGenerate ?req) before\<rparr>,
             Some err)"
    by blast
  from C2_batch_failure [where req = ?good and marshal = ?M and fuel = 0 and g = globalPkg0,
      THEN conjunct2, THEN mp, OF h2]
  have b: "Convert ?M 0 globalPkg0 ?good =
         (\<lparr>Error = None,
           File = artifacts ?M 0 (registerFiles globalPkg0 (GetProtoFile ?good))
                    (GetFileToGenerate ?good) (GetProtoFile ?good)\<rparr>,
          None)" .
  from a b show ?thesis by (simp only: Let_def)
qed

end
